(* ===== verification/Prelude.thy ===== *)
theory Prelude
  imports Main
begin

text \<open>
  Shared vocabulary of the uptime-checker model (\<^verbatim>\<open>src/main.go\<close>).
  A Go \<open>string\<close> is a byte sequence; it is modelled as \<^typ>\<open>string\<close>, whose
  \<^typ>\<open>char\<close>s are bytes, so \<open>length\<close> is Go's \<open>len\<close>.  This theory holds the
  type names of the model, the collection \<open>uptime_simps\<close> of evaluation rules that the
  component theories fill, the byte-level helpers of Go's standard library that several
  components use (\<open>strings.ToLower\<close> on ASCII, \<open>utf8.RuneCountInString\<close>), and the
  generic list lemmas the component proofs share.
\<close>

named_theorems uptime_simps "evaluation rules of the uptime-checker model"

type_synonym go_string = string
type_synonym label = string
type_synonym url = string

subsection \<open>Byte-level string helpers\<close>

definition is_upper_ascii :: "char \<Rightarrow> bool" where
  "is_upper_ascii c \<longleftrightarrow> (65::nat) \<le> of_char c \<and> of_char c \<le> (90::nat)"

definition lower_char :: "char \<Rightarrow> char" where
  "lower_char c = (if is_upper_ascii c then char_of (of_char c + (32::nat)) else c)"

text \<open>\<open>strings.ToLower\<close> restricted to ASCII input, which is all the model applies it
  to (the exported field names of a Go struct).\<close>

definition lower_ascii :: "string \<Rightarrow> string" where
  "lower_ascii s = map lower_char s"

text \<open>A UTF-8 continuation byte has the bit pattern \<open>10xxxxxx\<close>; every rune of a valid
  UTF-8 string starts with a byte that is not one, so counting the other bytes is
  \<open>utf8.RuneCountInString\<close> on valid UTF-8.\<close>

definition is_cont_byte :: "char \<Rightarrow> bool" where
  "is_cont_byte c \<longleftrightarrow> of_char c div (64::nat) = 2"

definition rune_count :: "string \<Rightarrow> nat" where
  "rune_count s = length (filter (\<lambda>c. \<not> is_cont_byte c) s)"

subsection \<open>Shared lemmas\<close>

lemma lower_ascii_append [uptime_simps]:
  "lower_ascii (xs @ ys) = lower_ascii xs @ lower_ascii ys"
  by (simp add: lower_ascii_def)

lemma lower_ascii_length [simp]: "length (lower_ascii s) = length s"
  by (simp add: lower_ascii_def)

lemma rune_count_append [uptime_simps]:
  "rune_count (xs @ ys) = rune_count xs + rune_count ys"
  by (simp add: rune_count_def)

lemma rune_count_le_length: "rune_count s \<le> length s"
  by (simp add: rune_count_def)

text \<open>An ASCII string (every byte below 128) has one rune per byte.\<close>

lemma rune_count_ascii:
  assumes "\<forall>c\<in>set s. of_char c < (128::nat)"
  shows "rune_count s = length s"
proof -
  have "\<forall>c\<in>set s. \<not> is_cont_byte c"
    using assms by (auto simp: is_cont_byte_def)
  then show ?thesis by (simp add: rune_count_def)
qed

lemma concat_map_append_singleton [uptime_simps]:
  "concat (map f (xs @ [x])) = concat (map f xs) @ f x"
  by simp

lemma ex_less_Suc_shift: "(\<exists>j<Suc n. P j) \<longleftrightarrow> P 0 \<or> (\<exists>j<n. P (Suc j))"
  by (auto simp: less_Suc_eq_0_disj)

end
