(* ===== verification/Flags.thy ===== *)
theory Flags
  imports Prelude
begin

text \<open>
  Lines 37--38 of \<^verbatim>\<open>main.go\<close>: \<open>flag.StringVar(&confFile, "config", "conf.yaml",
  ...)\<close> declares the one flag, and \<open>flag.Parse()\<close> reads the command line with the
  rules of Go's \<open>flag\<close> package (\<open>FlagSet.parseOne\<close>), modelled here for that flag
  set: flags are read until the first argument that is not a flag (shorter than two
  bytes or not starting with \<open>-\<close>) or until \<open>--\<close>; a flag is \<open>-name\<close> or
  \<open>--name\<close>, with its value after the first \<open>=\<close> or else in the next argument; a
  later \<open>-config\<close> overrides an earlier one; \<open>-h\<close> and \<open>-help\<close> ask for help, and
  any other name, a missing value or a malformed flag is an error.  With
  \<open>ExitOnError\<close> the process then exits with status 0 (help) or 2 (error).
\<close>

datatype flag_exit = Flag_Help | Flag_Error

text \<open>The loop \<open>for i := 1; i < len(name); i++ { if name[i] == '=' ... }\<close>: the name
  ends at the first \<open>=\<close> after its first byte.\<close>

fun split_at_eq :: "go_string \<Rightarrow> go_string \<times> go_string option" where
  "split_at_eq [] = ([], None)"
| "split_at_eq (c # cs) =
     (if c = CHR ''='' then ([], Some cs)
      else (case split_at_eq cs of (n, v) \<Rightarrow> (c # n, v)))"

definition flag_name_value :: "go_string \<Rightarrow> go_string \<times> go_string option" where
  "flag_name_value name =
     (case name of [] \<Rightarrow> ([], None) | c # cs \<Rightarrow> (case split_at_eq cs of (n, v) \<Rightarrow> (c # n, v)))"

text \<open>\<open>flag.Parse()\<close> on the arguments, \<open>v\<close> being the current value of
  \<open>confFile\<close>: \<open>Inr\<close> of its final value, or \<open>Inl\<close> of the reason to exit.\<close>

fun parse_flags :: "go_string \<Rightarrow> go_string list \<Rightarrow> flag_exit + go_string" where
  "parse_flags v [] = Inr v"
| "parse_flags v (s # rest) =
     (case s of
        c0 # c1 # cs \<Rightarrow>
          (if c0 \<noteq> CHR ''-'' then Inr v
           else if c1 = CHR ''-'' \<and> cs = [] then Inr v
           else
             (let name = (if c1 = CHR ''-'' then cs else c1 # cs)
              in if name = [] \<or> hd name = CHR ''-'' \<or> hd name = CHR ''='' then Inl Flag_Error
                 else
                   (case flag_name_value name of
                      (n, val) \<Rightarrow>
                        if n \<noteq> ''config'' then
                          (if n = ''help'' \<or> n = ''h'' then Inl Flag_Help else Inl Flag_Error)
                        else
                          (case val of
                             Some x \<Rightarrow> parse_flags x rest
                           | None \<Rightarrow>
                               (case rest of
                                  [] \<Rightarrow> Inl Flag_Error
                                | y # rest' \<Rightarrow> parse_flags y rest')))))
      | _ \<Rightarrow> Inr v)"

text \<open>The value of \<open>confFile\<close> after line 38: the default is \<open>"conf.yaml"\<close>.\<close>

definition conf_file :: "go_string list \<Rightarrow> flag_exit + go_string" where
  "conf_file args = parse_flags ''conf.yaml'' args"

subsection \<open>Lemmas\<close>

lemma split_at_eq_no_eq:
  "CHR ''='' \<notin> set cs \<Longrightarrow> split_at_eq cs = (cs, None)"
  by (induction cs) auto

lemma split_at_eq_config_eq: "split_at_eq (''onfig='' @ p) = (''onfig'', Some p)"
  by simp

lemma parse_flags_config_next [uptime_simps]:
  "parse_flags v (''-config'' # p # rest) = parse_flags p rest"
  by (simp add: flag_name_value_def)

lemma parse_flags_config_next2 [uptime_simps]:
  "parse_flags v (''--config'' # p # rest) = parse_flags p rest"
  by (simp add: flag_name_value_def)

lemma parse_flags_config_eq [uptime_simps]:
  "parse_flags v ((''-config='' @ p) # rest) = parse_flags p rest"
  by (simp add: flag_name_value_def)

lemma parse_flags_config_eq2 [uptime_simps]:
  "parse_flags v ((''--config='' @ p) # rest) = parse_flags p rest"
  by (simp add: flag_name_value_def)

lemma parse_flags_positional:
  "s = [] \<or> hd s \<noteq> CHR ''-'' \<or> length s < 2 \<Longrightarrow> parse_flags v (s # rest) = Inr v"
  by (cases s rule: remdups_adj.cases) auto

subsection \<open>Properties of the command line\<close>

text \<open>C20: The path given with the flag, in any of its forms (\<open>-config p\<close>,
  \<open>--config p\<close>, \<open>-config=p\<close>), is the path \<open>main\<close> reads, whatever its bytes (a path
  that starts with \<open>-\<close> or holds \<open>=\<close> included); without the flag it is
  \<open>conf.yaml\<close>, and of two flags the last wins.\<close>

theorem conf_file_path:
  "conf_file [] = Inr ''conf.yaml'' \<and>
   conf_file [''-config'', p] = Inr p \<and> conf_file [''--config'', p] = Inr p \<and>
   conf_file [''-config='' @ p] = Inr p \<and>
   conf_file [''-config'', q, ''-config'', p] = Inr p"
  by (simp add: conf_file_def flag_name_value_def)

text \<open>C21: Flag parsing stops at \<open>--\<close> and at the first argument that does not start
  with \<open>-\<close>: a \<open>-config\<close> after it is not read and the default \<open>conf.yaml\<close> is
  used.\<close>

theorem conf_file_positional_stops:
  assumes "s = ''--'' \<or> (s \<noteq> [] \<and> hd s \<noteq> CHR ''-'')"
  shows "conf_file (s # rest) = Inr ''conf.yaml''"
  using assms unfolding conf_file_def
proof
  assume "s = ''--''"
  then show "parse_flags ''conf.yaml'' (s # rest) = Inr ''conf.yaml''" by simp
next
  assume "s \<noteq> [] \<and> hd s \<noteq> CHR ''-''"
  then show "parse_flags ''conf.yaml'' (s # rest) = Inr ''conf.yaml''"
    by (blast intro: parse_flags_positional)
qed

theorem conf_file_positional_stops_witness:
  "(''check'' = ''--'' \<or> (''check'' \<noteq> [] \<and> hd ''check'' \<noteq> CHR ''-'')) \<and>
   conf_file [''check'', ''-config'', ''other.yaml''] = Inr ''conf.yaml''"
  using conf_file_positional_stops [of "''check''" "[''-config'', ''other.yaml'']"] by simp

end
