(* ===== verification/Config.thy ===== *)
theory Config
  imports Prelude
begin

text \<open>
  The configuration types of \<^verbatim>\<open>main.go\<close> (lines 17--31) and what
  \<open>yaml.Unmarshal(f, &conf)\<close> (line 44) does with them.  The YAML text is parsed by
  the library into a node tree (\<open>ynode\<close>; that syntax parser is part of the world
  and not modelled); this theory models how yaml.v3 decodes such a tree into the
  \<open>Config\<close> struct, which the struct declarations and their tags determine:
  \<^item> the key of a field is its \<open>yaml:"..."\<close> tag, or else the Go field name in lower
    case (\<open>Servers\<close> is read from the key \<open>servers\<close>, \<open>URL\<close> from \<open>url\<close>);
  \<^item> keys are matched exactly, and keys that name no field are ignored;
  \<^item> a field whose key is absent keeps its zero value, and a \<open>null\<close> value sets it to
    zero;
  \<^item> a mapping or sequence where a string is expected, a scalar or mapping where the
    server list is expected, anything but a mapping where a struct is expected, and a
    key given twice in one mapping, are errors, and any error makes \<open>Unmarshal\<close>
    return an error;
  \<^item> a \<open>null\<close> item of the server list is dropped from the slice.
\<close>

record servers =
  URL :: url
  Label :: label

record pushoverCredential =
  Token :: go_string
  RecipientToken :: go_string

record Config =
  Servers :: "servers list"
  UserAgent :: go_string
  Credential :: pushoverCredential

definition zero_credential :: pushoverCredential where
  "zero_credential = \<lparr>Token = '''', RecipientToken = ''''\<rparr>"

text \<open>The zero value of the global \<open>var conf Config\<close> (line 33).\<close>

definition zero_config :: Config where
  "zero_config = \<lparr>Servers = [], UserAgent = '''', Credential = zero_credential\<rparr>"

subsection \<open>YAML nodes and field keys\<close>

datatype ynode =
    YScalar go_string
  | YSeq "ynode list"
  | YMap "(go_string \<times> ynode) list"
  | YNull

text \<open>yaml.v3's key for a struct field: the tag if there is one, else the field name in
  lower case.\<close>

definition yaml_key :: "go_string \<Rightarrow> go_string option \<Rightarrow> go_string" where
  "yaml_key field tag = (case tag of Some t \<Rightarrow> t | None \<Rightarrow> lower_ascii field)"

definition key_URL :: go_string where "key_URL = yaml_key ''URL'' None"
definition key_Label :: go_string where "key_Label = yaml_key ''Label'' None"
definition key_Token :: go_string where "key_Token = yaml_key ''Token'' (Some ''app_token'')"
definition key_RecipientToken :: go_string where
  "key_RecipientToken = yaml_key ''RecipientToken'' (Some ''recipient_token'')"
definition key_Servers :: go_string where "key_Servers = yaml_key ''Servers'' None"
definition key_UserAgent :: go_string where "key_UserAgent = yaml_key ''UserAgent'' (Some ''ua'')"
definition key_Credential :: go_string where
  "key_Credential = yaml_key ''Credential'' (Some ''pushover'')"

subsection \<open>Decoding\<close>

definition decode_string :: "ynode \<Rightarrow> go_string option" where
  "decode_string n = (case n of YNull \<Rightarrow> Some '''' | YScalar s \<Rightarrow> Some s | _ \<Rightarrow> None)"

text \<open>A field of a mapping: its zero value when the key is absent.\<close>

definition yaml_field ::
  "(ynode \<Rightarrow> 'a option) \<Rightarrow> 'a \<Rightarrow> go_string \<Rightarrow> (go_string \<times> ynode) list \<Rightarrow> 'a option" where
  "yaml_field dec zero k kvs = (case map_of kvs k of None \<Rightarrow> Some zero | Some n \<Rightarrow> dec n)"

text \<open>yaml.v3 decodes a mapping node only when no key occurs in it twice
  (\<open>decoder.mapping\<close> with \<open>uniqueKeys\<close>, the default: "mapping key ... already
  defined"); the check covers every key, whether or not it names a field.\<close>

definition unique_keys :: "(go_string \<times> ynode) list \<Rightarrow> bool" where
  "unique_keys kvs \<longleftrightarrow> distinct (map fst kvs)"

text \<open>One element of \<open>Servers\<close>: a mapping decoded into \<open>servers\<close>.  A \<open>null\<close>
  element never reaches this function (see \<open>decode_server_list\<close>).\<close>

definition decode_server :: "ynode \<Rightarrow> servers option" where
  "decode_server n =
     (case n of
        YMap kvs \<Rightarrow>
          (if \<not> unique_keys kvs then None
           else case (yaml_field decode_string '''' key_URL kvs,
                      yaml_field decode_string '''' key_Label kvs) of
                  (Some u, Some l) \<Rightarrow> Some \<lparr>URL = u, Label = l\<rparr>
                | _ \<Rightarrow> None)
      | _ \<Rightarrow> None)"

text \<open>\<open>decoder.sequence\<close> into \<open>[]servers\<close>: an element whose decoding reports
  failure is left out of the slice.  A \<open>null\<close> element fails without an error
  (\<open>decoder.null\<close> on a struct), so it is dropped silently; any other failing element
  records a type error and \<open>Unmarshal\<close> fails.\<close>

fun decode_server_list :: "ynode list \<Rightarrow> servers list option" where
  "decode_server_list [] = Some []"
| "decode_server_list (YNull # ns) = decode_server_list ns"
| "decode_server_list (n # ns) =
     (case decode_server n of
        None \<Rightarrow> None
      | Some s \<Rightarrow> map_option (Cons s) (decode_server_list ns))"

definition decode_servers :: "ynode \<Rightarrow> servers list option" where
  "decode_servers n = (case n of YNull \<Rightarrow> Some [] | YSeq ns \<Rightarrow> decode_server_list ns | _ \<Rightarrow> None)"

definition decode_credential :: "ynode \<Rightarrow> pushoverCredential option" where
  "decode_credential n =
     (case n of
        YNull \<Rightarrow> Some zero_credential
      | YMap kvs \<Rightarrow>
          (if \<not> unique_keys kvs then None
           else case (yaml_field decode_string '''' key_Token kvs,
                      yaml_field decode_string '''' key_RecipientToken kvs) of
                  (Some t, Some r) \<Rightarrow> Some \<lparr>Token = t, RecipientToken = r\<rparr>
                | _ \<Rightarrow> None)
      | _ \<Rightarrow> None)"

text \<open>\<open>yaml.Unmarshal(f, &conf)\<close> on the parsed document, \<open>conf\<close> being zero.\<close>

definition decode_config :: "ynode \<Rightarrow> Config option" where
  "decode_config n =
     (case n of
        YNull \<Rightarrow> Some zero_config
      | YMap kvs \<Rightarrow>
          (if \<not> unique_keys kvs then None
           else case (yaml_field decode_servers [] key_Servers kvs,
                      yaml_field decode_string '''' key_UserAgent kvs,
                      yaml_field decode_credential zero_credential key_Credential kvs) of
                  (Some ss, Some ua, Some c) \<Rightarrow>
                    Some \<lparr>Servers = ss, UserAgent = ua, Credential = c\<rparr>
                | _ \<Rightarrow> None)
      | _ \<Rightarrow> None)"

definition known_config_key :: "go_string \<Rightarrow> bool" where
  "known_config_key k \<longleftrightarrow> k = key_Servers \<or> k = key_UserAgent \<or> k = key_Credential"

subsection \<open>Lemmas\<close>

lemma yaml_keys [simp]:
  "key_URL = ''url''" "key_Label = ''label''" "key_Servers = ''servers''"
  "key_Token = ''app_token''" "key_RecipientToken = ''recipient_token''"
  "key_UserAgent = ''ua''" "key_Credential = ''pushover''"
  by code_simp+

lemma decode_string_scalar [simp]: "decode_string (YScalar s) = Some s"
  by (simp add: decode_string_def)

lemma decode_server_list_map [simp]:
  "decode_server_list (map (\<lambda>s. YMap [(''url'', YScalar (URL s)), (''label'', YScalar (Label s))]) ss)
     = Some ss"
  by (induction ss) (simp_all add: decode_server_def unique_keys_def yaml_field_def)

lemma map_of_filter_keys:
  "map_of (filter (\<lambda>(k, v). P k) kvs) k = (if P k then map_of kvs k else None)"
  by (induction kvs) auto

lemma yaml_field_filter_keys:
  "P k \<Longrightarrow> yaml_field dec z k (filter (\<lambda>(k, v). P k) kvs) = yaml_field dec z k kvs"
  by (simp add: yaml_field_def map_of_filter_keys)

lemma unique_keys_filter: "unique_keys kvs \<Longrightarrow> unique_keys (filter P kvs)"
  by (simp add: unique_keys_def distinct_map_filter)

subsection \<open>Properties of the decoder\<close>

text \<open>C18: A document written with the keys \<open>servers\<close> (items with \<open>url\<close> and
  \<open>label\<close>), \<open>ua\<close> and \<open>pushover\<close> (with \<open>app_token\<close> and \<open>recipient_token\<close>) decodes
  to exactly the configuration it spells out: these are the keys the declarations and
  tags of lines 17--31 give the fields, and each lands in its own field.\<close>

theorem decode_config_doc:
  "decode_config
     (YMap [(''servers'', YSeq (map (\<lambda>s. YMap [(''url'', YScalar (URL s)),
                                                (''label'', YScalar (Label s))]) ss)),
            (''ua'', YScalar ua),
            (''pushover'', YMap [(''app_token'', YScalar t), (''recipient_token'', YScalar r)])])
   = Some \<lparr>Servers = ss, UserAgent = ua, Credential = \<lparr>Token = t, RecipientToken = r\<rparr>\<rparr>"
  by (simp add: decode_config_def unique_keys_def yaml_field_def decode_servers_def
      decode_credential_def)

text \<open>C19: Keys that name no field are ignored: a document decodes as its restriction
  to the three known keys \<open>servers\<close>, \<open>ua\<close> and \<open>pushover\<close>, unless some key of it,
  known or not, occurs twice, and then it fails to decode.\<close>

theorem decode_config_ignores_unknown:
  "decode_config (YMap kvs) =
     (if unique_keys kvs then decode_config (YMap (filter (\<lambda>(k, v). known_config_key k) kvs))
      else None)"
proof (cases "unique_keys kvs")
  case True
  then show ?thesis
    using unique_keys_filter [OF True]
    by (simp add: decode_config_def yaml_field_filter_keys known_config_key_def del: yaml_keys)
next
  case False
  then show ?thesis by (simp add: decode_config_def)
qed

text \<open>A document without the key \<open>servers\<close> decodes, when it decodes, to a
  configuration with no servers; in particular the key \<open>Servers\<close> of the spec's schema
  is not read.\<close>

lemma decode_config_servers_absent:
  assumes "map_of kvs ''servers'' = None" and "decode_config (YMap kvs) = Some c"
  shows "Servers c = []"
  using assms
  by (auto simp: decode_config_def yaml_field_def split: if_splits option.splits)

end
