(* ===== verification/Effects.thy ===== *)
theory Effects
  imports Config
begin

text \<open>
  The interface between \<^verbatim>\<open>main.go\<close> and everything it calls that is not modelled
  here.  A \<open>world\<close> answers each external call: the file system
  (\<open>os.ReadFile\<close>), the YAML syntax parser, URL parsing inside
  \<open>http.NewRequest\<close>, the network (\<open>client.Do\<close>, answered per check, and whether the
  response body can be read to its end) and the Pushover API.  The program's
  observable behaviour is the list of \<open>event\<close>s it causes, in order, and its exit
  code.  \<open>log.Fatalln\<close> logs the error and exits with status 1: \<open>fatal_exit\<close> records
  the error as the last event and stops the run.
\<close>

datatype fatal =
    Read_Config_Failed   \<comment> \<open>line 42: \<open>os.ReadFile\<close> failed\<close>
  | Parse_Config_Failed  \<comment> \<open>line 46: \<open>yaml.Unmarshal\<close> failed\<close>
  | New_Request_Failed   \<comment> \<open>line 60: \<open>http.NewRequest\<close> failed\<close>
  | Drain_Failed         \<comment> \<open>line 73: reading the response body failed\<close>
  | Push_Failed          \<comment> \<open>line 80: \<open>sendPushover\<close> returned an error\<close>

text \<open>\<open>http.Request\<close>: the method, the URL and the header lines, in order.\<close>

record request =
  req_method :: go_string
  req_url :: url
  req_header :: "(go_string \<times> go_string) list"

text \<open>The \<open>http.Client\<close> of lines 49--53: only its TLS policy matters here.\<close>

record client =
  insecure_skip_verify :: bool

text \<open>The answer of \<open>client.Do\<close>: an error, or a response with its status line
  (\<open>resp.Status\<close>) and whether \<open>io.Copy(io.Discard, resp.Body)\<close> succeeds.\<close>

datatype http_result = Do_Error | Response go_string bool

text \<open>The message handed to the Pushover library: application token, recipient token
  and the fields of \<open>pushover.Message\<close> that \<^verbatim>\<open>main.go\<close> sets.\<close>

record push_call =
  push_token :: go_string
  push_recipient :: go_string
  push_message :: go_string
  push_title :: go_string
  push_priority :: int
  push_html :: bool

datatype event =
    Ev_Read_File go_string
  | Ev_Do nat client request  \<comment> \<open>the request of check \<open>i\<close>, sent through the client\<close>
  | Ev_Drain nat
  | Ev_Close nat
  | Ev_Push push_call         \<comment> \<open>a call to the Pushover API\<close>
  | Ev_Fatal fatal            \<comment> \<open>\<open>log.Fatalln\<close>: logged, then exit 1\<close>

record world =
  read_file :: "go_string \<Rightarrow> go_string option"
  yaml_parse :: "go_string \<Rightarrow> ynode option"
  url_parses :: "url \<Rightarrow> bool"
  http_do :: "nat \<Rightarrow> request \<Rightarrow> http_result"
  push_delivered :: "push_call \<Rightarrow> bool"

text \<open>The state the run threads: the failure list \<open>msg\<close> of line 55 and the events so
  far.\<close>

record run_state =
  msg :: "go_string list"
  events :: "event list"

type_synonym 'a go_result = "(fatal \<times> run_state) + 'a"

definition emit :: "event \<Rightarrow> run_state \<Rightarrow> run_state" where
  "emit e s = s\<lparr>events := events s @ [e]\<rparr>"

definition fatal_exit :: "fatal \<Rightarrow> run_state \<Rightarrow> 'a go_result" where
  "fatal_exit e s = Inl (e, emit (Ev_Fatal e) s)"

text \<open>Sequencing of two steps of \<open>main\<close>: a fatal exit of the first ends the run.\<close>

definition go_bind :: "'a go_result \<Rightarrow> ('a \<Rightarrow> 'b go_result) \<Rightarrow> 'b go_result" where
  "go_bind r f = (case r of Inl e \<Rightarrow> Inl e | Inr x \<Rightarrow> f x)"

definition is_push :: "event \<Rightarrow> bool" where
  "is_push e = (case e of Ev_Push _ \<Rightarrow> True | _ \<Rightarrow> False)"

definition is_do :: "event \<Rightarrow> bool" where
  "is_do e = (case e of Ev_Do _ _ _ \<Rightarrow> True | _ \<Rightarrow> False)"

definition is_fatal :: "event \<Rightarrow> bool" where
  "is_fatal e = (case e of Ev_Fatal _ \<Rightarrow> True | _ \<Rightarrow> False)"

text \<open>A step from state \<open>s\<close> with result \<open>r\<close> caused the events \<open>evs\<close>, each
  satisfying \<open>P\<close>, followed by the fatal error when it ended the run.\<close>

definition run_extends :: "(event \<Rightarrow> bool) \<Rightarrow> run_state \<Rightarrow> run_state go_result \<Rightarrow> event list \<Rightarrow> bool" where
  "run_extends P s r evs \<longleftrightarrow>
     list_all P evs \<and>
     (case r of Inl (f, s') \<Rightarrow> events s' = events s @ evs @ [Ev_Fatal f]
              | Inr s' \<Rightarrow> events s' = events s @ evs)"

subsection \<open>Lemmas\<close>

lemma emit_msg [simp]: "msg (emit e s) = msg s"
  by (simp add: emit_def)

lemma emit_events [simp]: "events (emit e s) = events s @ [e]"
  by (simp add: emit_def)

lemma fatal_exit_Inl [simp]:
  "fatal_exit e s = Inl (e', s') \<longleftrightarrow> e' = e \<and> s' = emit (Ev_Fatal e) s"
  by (auto simp: fatal_exit_def)

lemma fatal_exit_not_Inr [simp]: "fatal_exit e s \<noteq> Inr x"
  by (simp add: fatal_exit_def)

lemma go_bind_simps [simp]:
  "go_bind (Inl e) f = Inl e" "go_bind (Inr x) f = f x"
  by (simp_all add: go_bind_def)

lemma go_bind_Inr_iff:
  "go_bind r f = Inr y \<longleftrightarrow> (\<exists>x. r = Inr x \<and> f x = Inr y)"
  by (cases r) simp_all

lemma go_bind_Inl_iff:
  "go_bind r f = Inl e \<longleftrightarrow> r = Inl e \<or> (\<exists>x. r = Inr x \<and> f x = Inl e)"
  by (cases r) simp_all

lemma run_extends_Inr_Inr:
  "run_extends P s (Inr s1) evs1 \<Longrightarrow> run_extends P s1 r evs2 \<Longrightarrow>
   run_extends P s r (evs1 @ evs2)"
  by (auto simp: run_extends_def split: sum.splits)

lemma run_extends_mono:
  "run_extends P s r evs \<Longrightarrow> (\<And>e. P e \<Longrightarrow> Q e) \<Longrightarrow> run_extends Q s r evs"
  by (auto simp: run_extends_def list_all_iff)

lemma event_kinds [simp]:
  "is_push (Ev_Push c)" "\<not> is_push (Ev_Do i cl r)" "\<not> is_push (Ev_Drain i)"
  "\<not> is_push (Ev_Close i)" "\<not> is_push (Ev_Fatal f)" "\<not> is_push (Ev_Read_File p)"
  "is_do (Ev_Do i cl r)" "\<not> is_do (Ev_Push c)" "\<not> is_do (Ev_Drain i)"
  "\<not> is_do (Ev_Close i)" "\<not> is_do (Ev_Fatal f)" "\<not> is_do (Ev_Read_File p)"
  "is_fatal (Ev_Fatal f)" "\<not> is_fatal (Ev_Push c)" "\<not> is_fatal (Ev_Do i cl r)"
  "\<not> is_fatal (Ev_Drain i)" "\<not> is_fatal (Ev_Close i)" "\<not> is_fatal (Ev_Read_File p)"
  by (simp_all add: is_push_def is_do_def is_fatal_def)

end
