(* ===== verification/Checker.thy ===== *)
theory Checker
  imports Effects
begin

text \<open>
  The check loop of \<^verbatim>\<open>main.go\<close>, lines 55--76.  \<open>check_server\<close> is one iteration
  (lines 57--75) on server \<open>i\<close> of the list, \<open>check_loop\<close> is the \<open>for ... range\<close>
  over \<open>conf.Servers\<close>.  The abstract specification says what each target contributes
  (\<open>target_failures\<close>: nothing for the status line \<open>"200 OK"\<close>, one entry when the
  request fails, two for any other status) and which events it causes
  (\<open>target_events\<close>); \<open>loop_safe\<close> says that no target hits one of the loop's two
  fatal paths (an unparsable URL, a response body that cannot be read), and
  \<open>target_fatal\<close> what a target that does hit one contributes before the exit.
\<close>

text \<open>\<open>fmt.Sprintf("%s is seems down.", i.Label)\<close>, lines 65 and 69.\<close>

definition down_msg :: "label \<Rightarrow> go_string" where
  "down_msg l = l @ '' is seems down.''"

definition invalid_status :: go_string where
  "invalid_status = ''Invalid Status Code''"

text \<open>\<open>http.NewRequest(method, url, nil)\<close>: fails exactly when the URL does not
  parse (the method is the valid literal \<open>"GET"\<close>).\<close>

definition new_request :: "world \<Rightarrow> go_string \<Rightarrow> url \<Rightarrow> request option" where
  "new_request w m u =
     (if url_parses w u then Some \<lparr>req_method = m, req_url = u, req_header = []\<rparr> else None)"

text \<open>\<open>req.Header.Add(key, value)\<close>.\<close>

definition header_add :: "go_string \<Rightarrow> go_string \<Rightarrow> request \<Rightarrow> request" where
  "header_add k v r = r\<lparr>req_header := req_header r @ [(k, v)]\<rparr>"

text \<open>One iteration of the loop, lines 57--75.\<close>

definition check_server ::
  "world \<Rightarrow> client \<Rightarrow> Config \<Rightarrow> nat \<Rightarrow> servers \<Rightarrow> run_state \<Rightarrow> run_state go_result" where
  "check_server w cl conf i srv s =
     (case new_request w ''GET'' (URL srv) of
        None \<Rightarrow> fatal_exit New_Request_Failed s
      | Some req0 \<Rightarrow>
          (let req = header_add ''User-Agent'' (UserAgent conf) req0;
               s1 = emit (Ev_Do i cl req) s
           in case http_do w i req of
                Do_Error \<Rightarrow> Inr (s1\<lparr>msg := msg s1 @ [down_msg (Label srv)]\<rparr>)
              | Response status drains \<Rightarrow>
                  (let s2 = (if status \<noteq> ''200 OK''
                             then s1\<lparr>msg := msg s1 @ [down_msg (Label srv), invalid_status]\<rparr>
                             else s1);
                       s3 = emit (Ev_Drain i) s2
                   in if \<not> drains then fatal_exit Drain_Failed s3
                      else Inr (emit (Ev_Close i) s3))))"

text \<open>\<open>for _, i := range conf.Servers\<close>, counting the iterations from \<open>i\<close>.\<close>

fun check_loop ::
  "world \<Rightarrow> client \<Rightarrow> Config \<Rightarrow> nat \<Rightarrow> servers list \<Rightarrow> run_state \<Rightarrow> run_state go_result" where
  "check_loop w cl conf i [] s = Inr s"
| "check_loop w cl conf i (srv # rest) s =
     (case check_server w cl conf i srv s of
        Inl f \<Rightarrow> Inl f
      | Inr s' \<Rightarrow> check_loop w cl conf (Suc i) rest s')"

subsection \<open>Abstract specification of the check\<close>

text \<open>The request the spec prescribes: a GET of the URL with the configured
  user agent.\<close>

definition check_request :: "Config \<Rightarrow> servers \<Rightarrow> request" where
  "check_request conf srv =
     \<lparr>req_method = ''GET'', req_url = URL srv, req_header = [(''User-Agent'', UserAgent conf)]\<rparr>"

fun target_failures :: "label \<Rightarrow> http_result \<Rightarrow> go_string list" where
  "target_failures l Do_Error = [down_msg l]"
| "target_failures l (Response st d) =
     (if st = ''200 OK'' then [] else [down_msg l, invalid_status])"

definition answer :: "world \<Rightarrow> Config \<Rightarrow> nat \<Rightarrow> servers \<Rightarrow> http_result" where
  "answer w conf i srv = http_do w i (check_request conf srv)"

fun target_events :: "nat \<Rightarrow> client \<Rightarrow> request \<Rightarrow> http_result \<Rightarrow> event list" where
  "target_events i cl req Do_Error = [Ev_Do i cl req]"
| "target_events i cl req (Response st d) = [Ev_Do i cl req, Ev_Drain i, Ev_Close i]"

fun target_ok :: "http_result \<Rightarrow> bool" where
  "target_ok Do_Error = True"
| "target_ok (Response st d) = d"

fun spec_failures :: "world \<Rightarrow> Config \<Rightarrow> nat \<Rightarrow> servers list \<Rightarrow> go_string list" where
  "spec_failures w conf i [] = []"
| "spec_failures w conf i (srv # rest) =
     target_failures (Label srv) (answer w conf i srv) @ spec_failures w conf (Suc i) rest"

fun spec_events :: "world \<Rightarrow> client \<Rightarrow> Config \<Rightarrow> nat \<Rightarrow> servers list \<Rightarrow> event list" where
  "spec_events w cl conf i [] = []"
| "spec_events w cl conf i (srv # rest) =
     target_events i cl (check_request conf srv) (answer w conf i srv)
     @ spec_events w cl conf (Suc i) rest"

fun loop_safe :: "world \<Rightarrow> Config \<Rightarrow> nat \<Rightarrow> servers list \<Rightarrow> bool" where
  "loop_safe w conf i [] = True"
| "loop_safe w conf i (srv # rest) =
     (url_parses w (URL srv) \<and> target_ok (answer w conf i srv) \<and> loop_safe w conf (Suc i) rest)"

text \<open>What a fatal target contributes before the program exits: the fatal error, the
  failure entries and the events that precede the \<open>log.Fatalln\<close>.  A URL that does not
  parse stops the run before any request; a body that cannot be read stops it after
  the request, the status check and the drain.  \<open>None\<close> for a target that is not
  fatal.\<close>

definition target_fatal ::
  "world \<Rightarrow> client \<Rightarrow> Config \<Rightarrow> nat \<Rightarrow> servers \<Rightarrow> (fatal \<times> go_string list \<times> event list) option"
where
  "target_fatal w cl conf i srv =
     (if \<not> url_parses w (URL srv) then Some (New_Request_Failed, [], [])
      else case answer w conf i srv of
             Response st False \<Rightarrow>
               Some (Drain_Failed, target_failures (Label srv) (Response st False),
                     [Ev_Do i cl (check_request conf srv), Ev_Drain i])
           | _ \<Rightarrow> None)"

text \<open>The events the loop causes through client \<open>cl\<close>: GET requests sent with it,
  drains and closes.\<close>

definition loop_event :: "client \<Rightarrow> event \<Rightarrow> bool" where
  "loop_event cl e =
     (case e of Ev_Do i c r \<Rightarrow> c = cl \<and> req_method r = ''GET''
              | Ev_Drain i \<Rightarrow> True | Ev_Close i \<Rightarrow> True | _ \<Rightarrow> False)"

subsection \<open>Lemmas on one iteration\<close>

lemma new_request_header [simp]:
  "url_parses w (URL srv) \<Longrightarrow>
   new_request w ''GET'' (URL srv) = Some req0 \<Longrightarrow>
   header_add ''User-Agent'' (UserAgent conf) req0 = check_request conf srv"
  by (auto simp: new_request_def header_add_def check_request_def split: if_splits)

lemma new_request_None_iff [simp]:
  "new_request w m u = None \<longleftrightarrow> \<not> url_parses w u"
  by (simp add: new_request_def)

lemma check_server_Inr:
  "check_server w cl conf i srv s = Inr s' \<longleftrightarrow>
     url_parses w (URL srv) \<and> target_ok (answer w conf i srv) \<and>
     s' = s\<lparr>msg := msg s @ target_failures (Label srv) (answer w conf i srv),
            events := events s @ target_events i cl (check_request conf srv) (answer w conf i srv)\<rparr>"
  by (auto simp: check_server_def new_request_def header_add_def check_request_def answer_def
      emit_def Let_def split: http_result.splits if_splits)

lemma check_server_Inl:
  assumes "check_server w cl conf i srv s = Inl (f, s')"
  shows "\<exists>evs ys. events s' = events s @ evs @ [Ev_Fatal f] \<and> \<not> list_ex is_fatal evs
           \<and> msg s' = msg s @ ys"
  using assms
  by (fastforce simp: check_server_def new_request_def emit_def Let_def
      split: http_result.splits if_splits)

lemma check_server_Inl_iff:
  "(\<exists>f s'. check_server w cl conf i srv s = Inl (f, s')) \<longleftrightarrow>
     \<not> (url_parses w (URL srv) \<and> target_ok (answer w conf i srv))"
  by (auto simp: check_server_def new_request_def header_add_def check_request_def answer_def
      fatal_exit_def Let_def split: http_result.splits if_splits)

lemma target_events_no_fatal [simp]: "\<not> list_ex is_fatal (target_events i cl r a)"
  by (cases a) simp_all

lemma spec_events_no_fatal [simp]: "\<not> list_ex is_fatal (spec_events w cl conf i srvs)"
  by (induction srvs arbitrary: i) simp_all

lemma check_server_extends:
  "\<exists>evs. run_extends (loop_event cl) s (check_server w cl conf i srv s) evs"
  by (simp add: run_extends_def check_server_def new_request_def header_add_def Let_def
      fatal_exit_def loop_event_def split: http_result.splits)

lemma spec_events_no_push [simp]: "\<not> list_ex is_push (spec_events w cl conf i srvs)"
proof (induction srvs arbitrary: i)
  case (Cons srv rest)
  then show ?case by (cases "answer w conf i srv") simp_all
qed simp

lemma target_fatal_None_iff:
  "target_fatal w cl conf i srv = None \<longleftrightarrow>
     url_parses w (URL srv) \<and> target_ok (answer w conf i srv)"
  by (simp add: target_fatal_def split: http_result.splits bool.splits)

lemma check_server_Inl_spec:
  "check_server w cl conf i srv s = Inl (f, s') \<longleftrightarrow>
     (\<exists>ys evs. target_fatal w cl conf i srv = Some (f, ys, evs) \<and>
        s' = s\<lparr>msg := msg s @ ys, events := events s @ evs @ [Ev_Fatal f]\<rparr>)"
  by (auto simp: check_server_def target_fatal_def new_request_def header_add_def
      check_request_def answer_def fatal_exit_def emit_def Let_def
      split: http_result.splits bool.splits)

subsection \<open>Lemmas on the loop\<close>

lemma check_loop_extends:
  "\<exists>evs. run_extends (loop_event cl) s (check_loop w cl conf i srvs s) evs"
proof (induction srvs arbitrary: i s)
  case Nil
  then show ?case by (simp add: run_extends_def)
next
  case (Cons srv rest)
  obtain evs1 where e1: "run_extends (loop_event cl) s (check_server w cl conf i srv s) evs1"
    using check_server_extends by blast
  show ?case
  proof (cases "check_server w cl conf i srv s")
    case (Inl r)
    with e1 show ?thesis by auto
  next
    case (Inr s1)
    obtain evs2 where "run_extends (loop_event cl) s1 (check_loop w cl conf (Suc i) rest s1) evs2"
      using Cons.IH by blast
    with e1 Inr show ?thesis by (auto dest: run_extends_Inr_Inr)
  qed
qed

lemma check_loop_Inr_spec:
  "check_loop w cl conf i srvs s = Inr s' \<Longrightarrow>
   s' = s\<lparr>msg := msg s @ spec_failures w conf i srvs,
          events := events s @ spec_events w cl conf i srvs\<rparr>"
proof (induction srvs arbitrary: i s)
  case (Cons srv rest)
  then obtain s1 where s1: "check_server w cl conf i srv s = Inr s1"
    and rest: "check_loop w cl conf (Suc i) rest s1 = Inr s'"
    by (auto split: sum.splits)
  from Cons.IH [OF rest] s1 show ?case
    by (simp add: check_server_Inr)
qed simp

lemma check_loop_safe_Inr:
  "loop_safe w conf i srvs \<Longrightarrow> \<exists>s'. check_loop w cl conf i srvs s = Inr s'"
proof (induction srvs arbitrary: i s)
  case (Cons srv rest)
  then obtain s1 where "check_server w cl conf i srv s = Inr s1"
    using check_server_Inr by fastforce
  with Cons show ?case by simp
qed simp

lemma check_loop_Inr_safe:
  "check_loop w cl conf i srvs s = Inr s' \<Longrightarrow> loop_safe w conf i srvs"
proof (induction srvs arbitrary: i s)
  case (Cons srv rest)
  then obtain s1 where s1: "check_server w cl conf i srv s = Inr s1"
    and "check_loop w cl conf (Suc i) rest s1 = Inr s'"
    by (auto split: sum.splits)
  with Cons.IH s1 show ?case by (simp add: check_server_Inr)
qed simp

lemma check_loop_Inl_shape:
  "check_loop w cl conf i srvs s = Inl (f, s') \<Longrightarrow>
   \<exists>evs ys. events s' = events s @ evs @ [Ev_Fatal f] \<and> \<not> list_ex is_fatal evs
     \<and> msg s' = msg s @ ys"
proof (induction srvs arbitrary: i s)
  case (Cons srv rest)
  show ?case
  proof (cases "check_server w cl conf i srv s")
    case (Inl r)
    with Cons.prems show ?thesis by (auto dest: check_server_Inl)
  next
    case (Inr s1)
    with Cons.prems have "check_loop w cl conf (Suc i) rest s1 = Inl (f, s')" by simp
    from Cons.IH [OF this] Inr show ?thesis
      by (fastforce simp: check_server_Inr)
  qed
qed simp


subsection \<open>Properties of the check\<close>

text \<open>C2: The loop refines its specification: it completes exactly when no target
  hits a fatal path, and then it has appended each target's failure entries to \<open>msg\<close>
  and caused each target's events, in the order of \<open>conf.Servers\<close>.\<close>

theorem check_loop_refines:
  "check_loop w cl conf i srvs s = Inr s' \<longleftrightarrow>
     loop_safe w conf i srvs \<and>
     s' = s\<lparr>msg := msg s @ spec_failures w conf i srvs,
            events := events s @ spec_events w cl conf i srvs\<rparr>"
proof
  assume "check_loop w cl conf i srvs s = Inr s'"
  then show "loop_safe w conf i srvs \<and>
     s' = s\<lparr>msg := msg s @ spec_failures w conf i srvs,
            events := events s @ spec_events w cl conf i srvs\<rparr>"
    by (blast dest: check_loop_Inr_safe check_loop_Inr_spec)
next
  assume safe: "loop_safe w conf i srvs \<and>
     s' = s\<lparr>msg := msg s @ spec_failures w conf i srvs,
            events := events s @ spec_events w cl conf i srvs\<rparr>"
  then obtain s'' where run: "check_loop w cl conf i srvs s = Inr s''"
    using check_loop_safe_Inr by blast
  with safe show "check_loop w cl conf i srvs s = Inr s'"
    using check_loop_Inr_spec [OF run] by simp
qed

text \<open>C3: A target whose request cannot be completed contributes exactly the entry
  \<open>"<Label> is seems down."\<close>, and the loop goes on (the iteration returns normally).\<close>

theorem check_server_unreachable:
  assumes "url_parses w (URL srv)" and "answer w conf i srv = Do_Error"
  shows "check_server w cl conf i srv s =
           Inr (s\<lparr>msg := msg s @ [down_msg (Label srv)],
                  events := events s @ [Ev_Do i cl (check_request conf srv)]\<rparr>)"
  using assms by (simp add: check_server_Inr)

theorem check_server_unreachable_witness:
  "url_parses \<lparr>read_file = \<lambda>_. None, yaml_parse = \<lambda>_. None, url_parses = \<lambda>_. True,
                http_do = \<lambda>_ _. Do_Error, push_delivered = \<lambda>_. True\<rparr> ''http://a'' \<and>
   check_server \<lparr>read_file = \<lambda>_. None, yaml_parse = \<lambda>_. None, url_parses = \<lambda>_. True,
                http_do = \<lambda>_ _. Do_Error, push_delivered = \<lambda>_. True\<rparr>
     \<lparr>insecure_skip_verify = True\<rparr> zero_config 0 \<lparr>URL = ''http://a'', Label = ''A''\<rparr>
     \<lparr>msg = [], events = []\<rparr> =
   Inr \<lparr>msg = [''A is seems down.''],
        events = [Ev_Do 0 \<lparr>insecure_skip_verify = True\<rparr>
                    \<lparr>req_method = ''GET'', req_url = ''http://a'', req_header = [(''User-Agent'', [])]\<rparr>]\<rparr>"
  using check_server_unreachable
    [of "\<lparr>read_file = \<lambda>_. None, yaml_parse = \<lambda>_. None, url_parses = \<lambda>_. True,
          http_do = \<lambda>_ _. Do_Error, push_delivered = \<lambda>_. True\<rparr>"
        "\<lparr>URL = ''http://a'', Label = ''A''\<rparr>" zero_config 0 "\<lparr>insecure_skip_verify = True\<rparr>"
        "\<lparr>msg = [], events = []\<rparr>"]
  by (simp add: answer_def down_msg_def check_request_def zero_config_def)

text \<open>C4: A response whose status line is not exactly \<open>"200 OK"\<close> (\<open>"201 Created"\<close>
  included) contributes exactly the two entries \<open>"<Label> is seems down."\<close> and
  \<open>"Invalid Status Code"\<close>; its body is drained and closed.\<close>

theorem check_server_bad_status:
  assumes "url_parses w (URL srv)" and "answer w conf i srv = Response st True"
    and "st \<noteq> ''200 OK''"
  shows "check_server w cl conf i srv s =
           Inr (s\<lparr>msg := msg s @ [down_msg (Label srv), invalid_status],
                  events := events s @ [Ev_Do i cl (check_request conf srv), Ev_Drain i, Ev_Close i]\<rparr>)"
  using assms by (simp add: check_server_Inr)

theorem check_server_bad_status_witness:
  "url_parses \<lparr>read_file = \<lambda>_. None, yaml_parse = \<lambda>_. None, url_parses = \<lambda>_. True,
                http_do = \<lambda>_ _. Response ''201 Created'' True, push_delivered = \<lambda>_. True\<rparr>
     ''http://a'' \<and>
   ''201 Created'' \<noteq> ''200 OK'' \<and>
   msg (projr (check_server \<lparr>read_file = \<lambda>_. None, yaml_parse = \<lambda>_. None, url_parses = \<lambda>_. True,
                http_do = \<lambda>_ _. Response ''201 Created'' True, push_delivered = \<lambda>_. True\<rparr>
     \<lparr>insecure_skip_verify = True\<rparr> zero_config 0 \<lparr>URL = ''http://a'', Label = ''A''\<rparr>
     \<lparr>msg = [], events = []\<rparr>)) = [''A is seems down.'', ''Invalid Status Code'']"
  using check_server_bad_status
    [of "\<lparr>read_file = \<lambda>_. None, yaml_parse = \<lambda>_. None, url_parses = \<lambda>_. True,
          http_do = \<lambda>_ _. Response ''201 Created'' True, push_delivered = \<lambda>_. True\<rparr>"
        "\<lparr>URL = ''http://a'', Label = ''A''\<rparr>" zero_config 0 "''201 Created''"
        "\<lparr>insecure_skip_verify = True\<rparr>" "\<lparr>msg = [], events = []\<rparr>"]
  by (simp add: answer_def down_msg_def invalid_status_def)

text \<open>C5: A response with the status line \<open>"200 OK"\<close> whose body drains adds no
  failure entry.\<close>

theorem check_server_ok:
  assumes "url_parses w (URL srv)" and "answer w conf i srv = Response ''200 OK'' True"
  shows "check_server w cl conf i srv s =
           Inr (s\<lparr>events := events s @ [Ev_Do i cl (check_request conf srv), Ev_Drain i, Ev_Close i]\<rparr>)"
  using assms by (simp add: check_server_Inr)

theorem check_server_ok_witness:
  "url_parses \<lparr>read_file = \<lambda>_. None, yaml_parse = \<lambda>_. None, url_parses = \<lambda>_. True,
                http_do = \<lambda>_ _. Response ''200 OK'' True, push_delivered = \<lambda>_. True\<rparr>
     ''http://a'' \<and>
   msg (projr (check_server \<lparr>read_file = \<lambda>_. None, yaml_parse = \<lambda>_. None, url_parses = \<lambda>_. True,
                http_do = \<lambda>_ _. Response ''200 OK'' True, push_delivered = \<lambda>_. True\<rparr>
     \<lparr>insecure_skip_verify = True\<rparr> zero_config 0 \<lparr>URL = ''http://a'', Label = ''A''\<rparr>
     \<lparr>msg = [], events = []\<rparr>)) = []"
  using check_server_ok
    [of "\<lparr>read_file = \<lambda>_. None, yaml_parse = \<lambda>_. None, url_parses = \<lambda>_. True,
          http_do = \<lambda>_ _. Response ''200 OK'' True, push_delivered = \<lambda>_. True\<rparr>"
        "\<lparr>URL = ''http://a'', Label = ''A''\<rparr>" zero_config 0
        "\<lparr>insecure_skip_verify = True\<rparr>" "\<lparr>msg = [], events = []\<rparr>"]
  by (simp add: answer_def)

text \<open>C6: The loop stops with a fatal error exactly at the first fatal target: it
  ends in error \<open>f\<close> iff for some position \<open>j\<close> the targets before \<open>j\<close> are safe and
  target \<open>j\<close> is fatal with error \<open>f\<close>.  The state it leaves holds the failure entries
  and events of the targets before \<open>j\<close> (as the specification has them), then those of
  target \<open>j\<close> up to the error, then the error as the last event.\<close>

theorem check_loop_fatal:
  "check_loop w cl conf i srvs s = Inl (f, s') \<longleftrightarrow>
     (\<exists>j<length srvs. \<exists>ys evs.
        loop_safe w conf i (take j srvs) \<and>
        target_fatal w cl conf (i + j) (srvs ! j) = Some (f, ys, evs) \<and>
        s' = s\<lparr>msg := msg s @ spec_failures w conf i (take j srvs) @ ys,
               events := events s @ spec_events w cl conf i (take j srvs) @ evs @ [Ev_Fatal f]\<rparr>)"
proof (induction srvs arbitrary: i s)
  case (Cons srv rest)
  show ?case
  proof (cases "check_server w cl conf i srv s")
    case (Inl r)
    then obtain f0 s0 where r: "check_server w cl conf i srv s = Inl (f0, s0)"
      by (cases r) auto
    then have "\<not> (url_parses w (URL srv) \<and> target_ok (answer w conf i srv))"
      using check_server_Inl_iff by blast
    moreover obtain ys evs where "target_fatal w cl conf i srv = Some (f0, ys, evs)"
      and "s0 = s\<lparr>msg := msg s @ ys, events := events s @ evs @ [Ev_Fatal f0]\<rparr>"
      using r check_server_Inl_spec by blast
    ultimately show ?thesis
      using r by (auto simp: ex_less_Suc_shift)
  next
    case (Inr s1)
    then have ok: "url_parses w (URL srv) \<and> target_ok (answer w conf i srv)"
      and s1: "s1 = s\<lparr>msg := msg s @ target_failures (Label srv) (answer w conf i srv),
            events := events s @ target_events i cl (check_request conf srv) (answer w conf i srv)\<rparr>"
      by (simp_all add: check_server_Inr)
    from ok have "target_fatal w cl conf i srv = None" by (simp add: target_fatal_None_iff)
    with Inr Cons.IH [of "Suc i" s1] ok s1 show ?thesis
      by (simp add: ex_less_Suc_shift)
  qed
qed simp

theorem check_loop_fatal_witness:
  "check_loop \<lparr>read_file = \<lambda>_. None, yaml_parse = \<lambda>_. None, url_parses = \<lambda>_. True,
                http_do = \<lambda>i _. if i = 0 then Response ''200 OK'' True else Response ''500'' False,
                push_delivered = \<lambda>_. True\<rparr>
     \<lparr>insecure_skip_verify = True\<rparr> zero_config 0
     [\<lparr>URL = ''https://a'', Label = ''a''\<rparr>, \<lparr>URL = ''https://b'', Label = ''b''\<rparr>]
     \<lparr>msg = [], events = []\<rparr> =
   Inl (Drain_Failed,
        \<lparr>msg = [''b is seems down.'', ''Invalid Status Code''],
         events = [Ev_Do 0 \<lparr>insecure_skip_verify = True\<rparr>
                     (check_request zero_config \<lparr>URL = ''https://a'', Label = ''a''\<rparr>),
                   Ev_Drain 0, Ev_Close 0,
                   Ev_Do 1 \<lparr>insecure_skip_verify = True\<rparr>
                     (check_request zero_config \<lparr>URL = ''https://b'', Label = ''b''\<rparr>),
                   Ev_Drain 1, Ev_Fatal Drain_Failed]\<rparr>)"
  unfolding check_loop_fatal
  by (intro exI [of _ "1::nat"])
     (simp add: target_fatal_def answer_def check_request_def down_msg_def invalid_status_def)

text \<open>C7: The requests of a completed loop are sent one per server, in the order of
  the server list, each a GET of the server's URL with the configured
  \<open>User-Agent\<close> header.\<close>

theorem check_loop_requests:
  assumes "check_loop w cl conf i srvs s = Inr s'"
  shows "filter is_do (events s') =
           filter is_do (events s) @
           map (\<lambda>k. Ev_Do (i + k) cl (check_request conf (srvs ! k))) [0..<length srvs]"
proof -
  have "filter is_do (spec_events w cl conf j ss) =
          map (\<lambda>k. Ev_Do (j + k) cl (check_request conf (ss ! k))) [0..<length ss]" for j ss
  proof (induction ss arbitrary: j)
    case (Cons srv rest)
    have "filter is_do (target_events j cl (check_request conf srv) (answer w conf j srv))
            = [Ev_Do j cl (check_request conf srv)]"
      by (cases "answer w conf j srv") simp_all
    with Cons.IH [of "Suc j"] show ?case
      by (simp add: map_upt_Suc del: upt_Suc)
  qed simp
  then show ?thesis using check_loop_Inr_spec [OF assms] by simp
qed


theorem check_loop_requests_witness:
  "check_loop \<lparr>read_file = \<lambda>_. None, yaml_parse = \<lambda>_. None, url_parses = \<lambda>_. True,
                http_do = \<lambda>_ _. Do_Error, push_delivered = \<lambda>_. True\<rparr>
     \<lparr>insecure_skip_verify = True\<rparr> zero_config 0 [\<lparr>URL = ''https://a'', Label = ''a''\<rparr>, \<lparr>URL = ''https://b'', Label = ''b''\<rparr>]
     \<lparr>msg = [], events = []\<rparr> =
   Inr \<lparr>msg = [''a is seems down.'', ''b is seems down.''],
        events = [Ev_Do 0 \<lparr>insecure_skip_verify = True\<rparr>
                    (check_request zero_config \<lparr>URL = ''https://a'', Label = ''a''\<rparr>),
                  Ev_Do 1 \<lparr>insecure_skip_verify = True\<rparr>
                    (check_request zero_config \<lparr>URL = ''https://b'', Label = ''b''\<rparr>)]\<rparr> \<and>
   filter is_do (events \<lparr>msg = [''a is seems down.'', ''b is seems down.''],
        events = [Ev_Do 0 \<lparr>insecure_skip_verify = True\<rparr>
                    (check_request zero_config \<lparr>URL = ''https://a'', Label = ''a''\<rparr>),
                  Ev_Do 1 \<lparr>insecure_skip_verify = True\<rparr>
                    (check_request zero_config \<lparr>URL = ''https://b'', Label = ''b''\<rparr>)]\<rparr>) =
     filter is_do (events \<lparr>msg = [], events = []\<rparr>) @
     map (\<lambda>k. Ev_Do (0 + k) \<lparr>insecure_skip_verify = True\<rparr> (check_request zero_config ([\<lparr>URL = ''https://a'', Label = ''a''\<rparr>, \<lparr>URL = ''https://b'', Label = ''b''\<rparr>] ! k)))
       [0..<length [\<lparr>URL = ''https://a'', Label = ''a''\<rparr>, \<lparr>URL = ''https://b'', Label = ''b''\<rparr>]]"
proof -
  have run: "check_loop \<lparr>read_file = \<lambda>_. None, yaml_parse = \<lambda>_. None, url_parses = \<lambda>_. True,
                http_do = \<lambda>_ _. Do_Error, push_delivered = \<lambda>_. True\<rparr>
     \<lparr>insecure_skip_verify = True\<rparr> zero_config 0 [\<lparr>URL = ''https://a'', Label = ''a''\<rparr>, \<lparr>URL = ''https://b'', Label = ''b''\<rparr>]
     \<lparr>msg = [], events = []\<rparr> =
   Inr \<lparr>msg = [''a is seems down.'', ''b is seems down.''],
        events = [Ev_Do 0 \<lparr>insecure_skip_verify = True\<rparr>
                    (check_request zero_config \<lparr>URL = ''https://a'', Label = ''a''\<rparr>),
                  Ev_Do 1 \<lparr>insecure_skip_verify = True\<rparr>
                    (check_request zero_config \<lparr>URL = ''https://b'', Label = ''b''\<rparr>)]\<rparr>"
    by (simp add: check_server_def new_request_def header_add_def check_request_def emit_def
        down_msg_def)
  show ?thesis by (rule conjI [OF run check_loop_requests [OF run]])
qed

end
