(* ===== verification/Go_Strings.thy ===== *)
theory Go_Strings
  imports Prelude
begin

text \<open>
  \<open>strings.Join\<close> as Go's standard library implements it, which \<^verbatim>\<open>main.go\<close> calls on
  line 78 to build the notification text: the first element, then a separator and an
  element for each remaining one, written into a \<open>strings.Builder\<close> (its preallocation
  does not change the result and is left out).  The lemmas relate it to the plain
  recursive join \<open>join_ref\<close> and count the runes of a join, which the notifier's
  message-size theorems need.  The overflow panics of the Go code need strings of
  \<open>2^63\<close> bytes and are not modelled.
\<close>

text \<open>\<open>for _, s := range elems[1:] { b.WriteString(sep); b.WriteString(s) }\<close>\<close>

fun join_builder :: "go_string \<Rightarrow> go_string list \<Rightarrow> go_string \<Rightarrow> go_string" where
  "join_builder sep [] b = b"
| "join_builder sep (s # ss) b = join_builder sep ss (b @ sep @ s)"

definition strings_join :: "go_string list \<Rightarrow> go_string \<Rightarrow> go_string" where
  "strings_join elems sep =
     (case elems of
        [] \<Rightarrow> ''''
      | [e] \<Rightarrow> e
      | e # rest \<Rightarrow> join_builder sep rest e)"

text \<open>The reference: elements separated by \<open>sep\<close>, nothing before the first or after
  the last.\<close>

fun join_ref :: "go_string \<Rightarrow> go_string list \<Rightarrow> go_string" where
  "join_ref sep [] = []"
| "join_ref sep [x] = x"
| "join_ref sep (x # y # ys) = x @ sep @ join_ref sep (y # ys)"

subsection \<open>Lemmas\<close>

lemma join_builder_eq:
  "join_builder sep ss b = b @ concat (map (\<lambda>s. sep @ s) ss)"
  by (induction ss arbitrary: b) auto

lemma join_ref_Cons:
  "join_ref sep (x # xs) = x @ concat (map (\<lambda>s. sep @ s) xs)"
  by (induction xs arbitrary: x) auto

lemma join_ref_append_single [uptime_simps]:
  "xs \<noteq> [] \<Longrightarrow> join_ref sep (xs @ [y]) = join_ref sep xs @ sep @ y"
  by (cases xs) (simp_all add: join_ref_Cons)

lemma join_ref_empty_iff:
  "join_ref sep xs = [] \<longleftrightarrow> (\<forall>x\<in>set xs. x = []) \<and> (sep = [] \<or> length xs \<le> 1)"
proof (induction sep xs rule: join_ref.induct)
  case (3 sep x y ys)
  then show ?case by auto
qed auto

lemma rune_count_join_ref:
  "rune_count (join_ref sep xs) = rune_count sep * (length xs - 1) + sum_list (map rune_count xs)"
proof (induction sep xs rule: join_ref.induct)
  case (3 sep x y ys)
  then show ?case by (simp add: rune_count_append algebra_simps)
qed (auto simp: rune_count_def)

lemma strings_join_eq_ref: "strings_join elems sep = join_ref sep elems"
proof (cases elems)
  case (Cons e rest)
  then show ?thesis
    by (cases rest) (simp_all add: strings_join_def join_builder_eq join_ref_Cons)
qed (simp add: strings_join_def)

end
