(* ===== verification/Notifier.thy ===== *)
theory Notifier
  imports Checker Go_Strings
begin

text \<open>
  The notification step of \<^verbatim>\<open>main.go\<close>: lines 77--82 (send once if \<open>msg\<close> is not
  empty, with the entries joined by \<open>"<br>"\<close>, and exit on an error) and
  \<open>sendPushover\<close>, lines 85--97 (the Pushover message with the fixed title
  \<open>"uptime checker"\<close>, HTML on, the given priority, the token and recipient from the
  configuration).  \<open>pushover_validate\<close> states the limits that the Pushover client
  library checks before it calls the API, which are the API's documented limits: an
  application token and a user key of 30 ASCII letters and digits, a non-empty message
  of at most 1024 runes, a title of at most 250 runes, a priority from -2 to 2.  A call
  that fails them causes no network event; a call that passes is sent
  (\<open>Ev_Push\<close>) and the world says whether it was delivered.
\<close>

definition is_alnum_ascii :: "char \<Rightarrow> bool" where
  "is_alnum_ascii c \<longleftrightarrow>
     ((48::nat) \<le> of_char c \<and> of_char c \<le> (57::nat)) \<or>
     ((65::nat) \<le> of_char c \<and> of_char c \<le> (90::nat)) \<or>
     ((97::nat) \<le> of_char c \<and> of_char c \<le> (122::nat))"

definition valid_push_token :: "go_string \<Rightarrow> bool" where
  "valid_push_token t \<longleftrightarrow> length t = 30 \<and> list_all is_alnum_ascii t"

definition pushover_validate :: "push_call \<Rightarrow> bool" where
  "pushover_validate c \<longleftrightarrow>
     valid_push_token (push_token c) \<and> valid_push_token (push_recipient c) \<and>
     push_message c \<noteq> [] \<and> rune_count (push_message c) \<le> 1024 \<and>
     rune_count (push_title c) \<le> 250 \<and> -2 \<le> push_priority c \<and> push_priority c \<le> 2"

text \<open>The message \<open>sendPushover\<close> builds, lines 86--94.\<close>

definition push_call_of :: "Config \<Rightarrow> go_string \<Rightarrow> int \<Rightarrow> push_call" where
  "push_call_of conf message priority =
     \<lparr>push_token = Token (Credential conf),
      push_recipient = RecipientToken (Credential conf),
      push_message = message, push_title = ''uptime checker'',
      push_priority = priority, push_html = True\<rparr>"

text \<open>\<open>sendPushover(message, priority)\<close>: the events it causes and whether it
  returned \<open>nil\<close>.\<close>

definition send_pushover :: "world \<Rightarrow> Config \<Rightarrow> go_string \<Rightarrow> int \<Rightarrow> event list \<times> bool" where
  "send_pushover w conf message priority =
     (let c = push_call_of conf message priority
      in if \<not> pushover_validate c then ([], False)
         else ([Ev_Push c], push_delivered w c))"

text \<open>Lines 77--82.\<close>

definition notify :: "world \<Rightarrow> Config \<Rightarrow> run_state \<Rightarrow> run_state go_result" where
  "notify w conf s =
     (if 0 < length (msg s) then
        (let (evs, ok) = send_pushover w conf (strings_join (msg s) ''<br>'') 0;
             s' = s\<lparr>events := events s @ evs\<rparr>
         in if \<not> ok then fatal_exit Push_Failed s' else Inr s')
      else Inr s)"

subsection \<open>Lemmas\<close>

lemma push_call_of_fields [simp]:
  "push_message (push_call_of conf m p) = m"
  "push_title (push_call_of conf m p) = ''uptime checker''"
  "push_priority (push_call_of conf m p) = p"
  "push_html (push_call_of conf m p)"
  "push_token (push_call_of conf m p) = Token (Credential conf)"
  "push_recipient (push_call_of conf m p) = RecipientToken (Credential conf)"
  by (simp_all add: push_call_of_def)

lemma rune_count_title: "rune_count ''uptime checker'' = 14"
  by code_simp

lemma rune_count_down_suffix: "rune_count '' is seems down.'' = 15"
  by code_simp

lemma rune_count_invalid_status: "rune_count invalid_status = 19"
  unfolding invalid_status_def by code_simp

lemma rune_count_sep: "rune_count ''<br>'' = 4"
  by code_simp

lemma rune_count_down_msg: "rune_count (down_msg l) = rune_count l + 15"
  by (simp add: down_msg_def rune_count_append rune_count_down_suffix)

lemma notify_empty: "msg s = [] \<Longrightarrow> notify w conf s = Inr s"
  by (simp add: notify_def)

lemma notify_cases:
  "notify w conf s =
     (if msg s = [] then Inr s
      else let c = push_call_of conf (join_ref ''<br>'' (msg s)) 0 in
        if \<not> pushover_validate c then fatal_exit Push_Failed s
        else if push_delivered w c then Inr (emit (Ev_Push c) s)
        else fatal_exit Push_Failed (emit (Ev_Push c) s))"
  by (simp add: notify_def send_pushover_def strings_join_eq_ref emit_def Let_def)

lemma notify_extends:
  "\<exists>evs. run_extends is_push s (notify w conf s) evs \<and> length evs \<le> 1"
  by (simp add: notify_cases run_extends_def Let_def fatal_exit_def)

lemma notify_msg:
  "notify w conf s = Inr s' \<or> notify w conf s = Inl (f, s') \<Longrightarrow> msg s' = msg s"
  by (auto simp: notify_cases Let_def fatal_exit_def split: if_splits)

lemma target_failures_runes:
  "m \<in> set (target_failures l a) \<Longrightarrow> 15 \<le> rune_count m"
  by (cases a) (auto simp: rune_count_down_msg rune_count_invalid_status split: if_splits)

lemma spec_failures_runes:
  "m \<in> set (spec_failures w conf i srvs) \<Longrightarrow> 15 \<le> rune_count m"
  by (induction srvs arbitrary: i) (auto dest: target_failures_runes)

lemma sum_list_lower:
  "(\<And>m. m \<in> set ms \<Longrightarrow> k \<le> f m) \<Longrightarrow> k * length ms \<le> sum_list (map f ms)"
  by (induction ms) fastforce+

lemma join_ref_runes_lower:
  assumes "\<And>m. m \<in> set ms \<Longrightarrow> 15 \<le> rune_count m"
  shows "19 * length ms \<le> rune_count (join_ref ''<br>'' ms) + 4"
proof -
  have "15 * length ms \<le> sum_list (map rune_count ms)"
    using assms by (rule sum_list_lower)
  then show ?thesis by (simp add: rune_count_join_ref rune_count_sep)
qed

lemma notify_push_count:
  "notify w conf s = Inr s' \<or> notify w conf s = Inl (f, s') \<Longrightarrow>
   length (filter is_push (events s')) \<le> Suc (length (filter is_push (events s)))"
  by (auto simp: notify_cases Let_def fatal_exit_def split: if_splits)

lemma notify_events_prefix:
  "notify w conf s = Inr s' \<or> notify w conf s = Inl (f, s') \<Longrightarrow>
   msg s' = msg s \<and> (\<exists>evs. events s' = events s @ evs \<and> length (filter is_push evs) \<le> 1)"
  by (auto simp: notify_cases Let_def fatal_exit_def split: if_splits)


subsection \<open>Properties of the notifier\<close>

text \<open>C8: With a non-empty failure list, the notifier makes exactly one Pushover call:
  the entries joined by \<open>"<br>"\<close> in their order, title \<open>"uptime checker"\<close>,
  priority 0, HTML on, the configured tokens; when it is accepted and delivered the run
  goes on.\<close>

theorem notify_sends_joined:
  assumes "msg s \<noteq> []"
    and "pushover_validate (push_call_of conf (join_ref ''<br>'' (msg s)) 0)"
    and "push_delivered w (push_call_of conf (join_ref ''<br>'' (msg s)) 0)"
  shows "notify w conf s =
           Inr (emit (Ev_Push \<lparr>push_token = Token (Credential conf),
                               push_recipient = RecipientToken (Credential conf),
                               push_message = strings_join (msg s) ''<br>'',
                               push_title = ''uptime checker'', push_priority = 0,
                               push_html = True\<rparr>) s)"
  using assms by (simp add: notify_cases strings_join_eq_ref push_call_of_def)

theorem notify_sends_joined_witness:
  "notify \<lparr>read_file = \<lambda>_. None, yaml_parse = \<lambda>_. None, url_parses = \<lambda>_. True,
           http_do = \<lambda>_ _. Do_Error, push_delivered = \<lambda>_. True\<rparr>
     \<lparr>Servers = [], UserAgent = ''ua'',
      Credential = \<lparr>Token = ''aaaaaaaaaaaaaaaaaaaaaaaaaaaaaa'',
                    RecipientToken = ''bbbbbbbbbbbbbbbbbbbbbbbbbbbbbb''\<rparr>\<rparr>
     \<lparr>msg = [''A is seems down.'', ''Invalid Status Code''], events = []\<rparr> =
   Inr \<lparr>msg = [''A is seems down.'', ''Invalid Status Code''],
        events = [Ev_Push \<lparr>push_token = ''aaaaaaaaaaaaaaaaaaaaaaaaaaaaaa'',
                           push_recipient = ''bbbbbbbbbbbbbbbbbbbbbbbbbbbbbb'',
                           push_message = ''A is seems down.<br>Invalid Status Code'',
                           push_title = ''uptime checker'', push_priority = 0,
                           push_html = True\<rparr>]\<rparr>"
proof -
  have valid: "pushover_validate
      (push_call_of \<lparr>Servers = [], UserAgent = ''ua'',
         Credential = \<lparr>Token = ''aaaaaaaaaaaaaaaaaaaaaaaaaaaaaa'',
                       RecipientToken = ''bbbbbbbbbbbbbbbbbbbbbbbbbbbbbb''\<rparr>\<rparr>
       (join_ref ''<br>'' [''A is seems down.'', ''Invalid Status Code'']) 0)"
    by (simp add: push_call_of_def pushover_validate_def valid_push_token_def) code_simp
  show ?thesis
    using valid notify_sends_joined [where w =
        "\<lparr>read_file = \<lambda>_. None, yaml_parse = \<lambda>_. None, url_parses = \<lambda>_. True,
          http_do = \<lambda>_ _. Do_Error, push_delivered = \<lambda>_. True\<rparr>"
        and s = "\<lparr>msg = [''A is seems down.'', ''Invalid Status Code''], events = []\<rparr>"
        and conf = "\<lparr>Servers = [], UserAgent = ''ua'',
         Credential = \<lparr>Token = ''aaaaaaaaaaaaaaaaaaaaaaaaaaaaaa'',
                       RecipientToken = ''bbbbbbbbbbbbbbbbbbbbbbbbbbbbbb''\<rparr>\<rparr>"]
    by (simp add: strings_join_def emit_def)
qed

text \<open>C9: A joined message of more than 1024 runes is refused by the Pushover
  limits: nothing is sent and the run exits with the notification error.\<close>

theorem notify_too_long:
  assumes "1024 < rune_count (strings_join (msg s) ''<br>'')"
  shows "notify w conf s = fatal_exit Push_Failed s"
proof -
  from assms have "msg s \<noteq> []"
    by (auto simp: strings_join_def rune_count_def)
  with assms show ?thesis
    by (simp add: notify_cases pushover_validate_def strings_join_eq_ref Let_def)
qed

theorem notify_too_long_witness:
  "1024 < rune_count (strings_join (replicate 60 ''A is seems down.'') ''<br>'') \<and>
   notify \<lparr>read_file = \<lambda>_. None, yaml_parse = \<lambda>_. None, url_parses = \<lambda>_. True,
           http_do = \<lambda>_ _. Do_Error, push_delivered = \<lambda>_. True\<rparr> zero_config
     \<lparr>msg = replicate 60 ''A is seems down.'', events = []\<rparr> =
   Inl (Push_Failed, \<lparr>msg = replicate 60 ''A is seems down.'', events = [Ev_Fatal Push_Failed]\<rparr>)"
proof -
  have long: "1024 < rune_count (strings_join (msg \<lparr>msg = replicate 60 ''A is seems down.'',
                  events = []\<rparr>) ''<br>'')"
    by (simp add: strings_join_eq_ref rune_count_join_ref rune_count_sep) code_simp
  show ?thesis
    using long notify_too_long [OF long, of
        "\<lparr>read_file = \<lambda>_. None, yaml_parse = \<lambda>_. None, url_parses = \<lambda>_. True,
          http_do = \<lambda>_ _. Do_Error, push_delivered = \<lambda>_. True\<rparr>" zero_config]
    by (simp add: fatal_exit_def emit_def)
qed

end
