(* ===== verification/Uptime.thy ===== *)
theory Uptime
  imports Flags Notifier
begin

text \<open>
  \<open>main\<close> of \<^verbatim>\<open>main.go\<close> (lines 36--83) as the composition of its steps:
  the flags (\<open>conf_file\<close>, lines 37--38), loading the configuration
  (\<open>load_config\<close>, lines 40--47), the client with TLS verification off
  (\<open>new_client\<close>, lines 49--53), the check loop (\<open>check_loop\<close>, lines 55--76) and the
  notification (\<open>notify\<close>, lines 77--82).  A step that ends in \<open>log.Fatalln\<close> ends the
  run (\<open>go_bind\<close>), and \<open>main_go\<close> returns the exit status with the events of the
  run.  The global \<open>conf\<close> is written once, on line 44, and only read afterwards, so it
  is passed as a value to the steps that read it.
\<close>

text \<open>Lines 40--47: read the file, parse it, decode it into the zero \<open>Config\<close>.\<close>

definition load_config :: "world \<Rightarrow> go_string \<Rightarrow> run_state \<Rightarrow> (Config \<times> run_state) go_result" where
  "load_config w path s =
     (let s1 = emit (Ev_Read_File path) s
      in case read_file w path of
           None \<Rightarrow> fatal_exit Read_Config_Failed s1
         | Some f \<Rightarrow>
             (case yaml_parse w f of
                None \<Rightarrow> fatal_exit Parse_Config_Failed s1
              | Some doc \<Rightarrow>
                  (case decode_config doc of
                     None \<Rightarrow> fatal_exit Parse_Config_Failed s1
                   | Some conf \<Rightarrow> Inr (conf, s1))))"

text \<open>Lines 49--53: \<open>TLSClientConfig: &tls.Config{InsecureSkipVerify: true}\<close>.\<close>

definition new_client :: client where
  "new_client = \<lparr>insecure_skip_verify = True\<rparr>"

definition init_state :: run_state where
  "init_state = \<lparr>msg = [], events = []\<rparr>"

text \<open>Lines 40--82 for the configuration file \<open>path\<close>.\<close>

definition run_checks :: "world \<Rightarrow> go_string \<Rightarrow> run_state go_result" where
  "run_checks w path =
     go_bind (load_config w path init_state)
       (\<lambda>(conf, s). go_bind (check_loop w new_client conf 0 (Servers conf) s) (notify w conf))"

text \<open>\<open>log.Fatalln\<close> exits with status 1; returning from \<open>main\<close> exits with 0.\<close>

definition exit_of :: "run_state go_result \<Rightarrow> nat \<times> event list" where
  "exit_of r = (case r of Inl (f, s) \<Rightarrow> (1, events s) | Inr s \<Rightarrow> (0, events s))"

definition main_go :: "world \<Rightarrow> go_string list \<Rightarrow> nat \<times> event list" where
  "main_go w args =
     (case conf_file args of
        Inl Flag_Help \<Rightarrow> (0, [])
      | Inl Flag_Error \<Rightarrow> (2, [])
      | Inr path \<Rightarrow> exit_of (run_checks w path))"

text \<open>The configuration a world yields for a path, if it loads.\<close>

definition loaded_config :: "world \<Rightarrow> go_string \<Rightarrow> Config option" where
  "loaded_config w path =
     (case read_file w path of
        None \<Rightarrow> None
      | Some f \<Rightarrow> (case yaml_parse w f of None \<Rightarrow> None | Some doc \<Rightarrow> decode_config doc))"

text \<open>The events a run may cause before its end: anything but a fatal error, and
  only GET requests through the client of lines 49--53.\<close>

definition run_event :: "event \<Rightarrow> bool" where
  "run_event e =
     (case e of Ev_Fatal f \<Rightarrow> False
              | Ev_Do i c r \<Rightarrow> c = new_client \<and> req_method r = ''GET''
              | _ \<Rightarrow> True)"

subsection \<open>Lemmas\<close>

lemma load_config_Inr:
  "load_config w path s = Inr (conf, s') \<longleftrightarrow>
     loaded_config w path = Some conf \<and> s' = emit (Ev_Read_File path) s"
  by (auto simp: load_config_def loaded_config_def Let_def split: option.splits)

lemma load_config_Inl:
  "load_config w path s = Inl (f, s') \<longleftrightarrow>
     loaded_config w path = None \<and>
     f = (if read_file w path = None then Read_Config_Failed else Parse_Config_Failed) \<and>
     s' = emit (Ev_Fatal f) (emit (Ev_Read_File path) s)"
  by (auto simp: load_config_def loaded_config_def Let_def fatal_exit_def split: option.splits)

lemma run_checks_loaded:
  "loaded_config w path = Some conf \<Longrightarrow>
   run_checks w path =
     go_bind (check_loop w new_client conf 0 (Servers conf)
               (emit (Ev_Read_File path) init_state)) (notify w conf)"
proof -
  assume "loaded_config w path = Some conf"
  then have "load_config w path init_state = Inr (conf, emit (Ev_Read_File path) init_state)"
    by (simp add: load_config_Inr)
  then show ?thesis by (simp add: run_checks_def)
qed

lemma run_checks_not_loaded:
  "loaded_config w path = None \<Longrightarrow>
   run_checks w path =
     Inl (if read_file w path = None then Read_Config_Failed else Parse_Config_Failed,
          emit (Ev_Fatal (if read_file w path = None then Read_Config_Failed else Parse_Config_Failed))
            (emit (Ev_Read_File path) init_state))"
  by (auto simp: run_checks_def load_config_def loaded_config_def Let_def fatal_exit_def
      split: option.splits)

lemma main_go_path:
  "conf_file args = Inr path \<Longrightarrow> main_go w args = exit_of (run_checks w path)"
  by (simp add: main_go_def)

lemma exit_of_simps [simp]:
  "exit_of (Inl (f, s)) = (1, events s)" "exit_of (Inr s) = (0, events s)"
  by (simp_all add: exit_of_def)

lemma loop_event_run_event:
  "loop_event new_client e \<Longrightarrow> run_event e \<and> \<not> is_push e"
  by (cases e) (simp_all add: loop_event_def run_event_def)

lemma push_run_event: "is_push e \<Longrightarrow> run_event e"
  by (cases e) (simp_all add: run_event_def)

lemma list_all_loop_events:
  "list_all (loop_event new_client) evs \<Longrightarrow>
   list_all run_event evs \<and> filter is_push evs = []"
  by (induction evs) (auto dest: loop_event_run_event)

lemma run_checks_trace:
  "\<exists>body. list_all run_event body \<and> length (filter is_push body) \<le> 1 \<and>
     (case run_checks w path of
        Inl (f, s) \<Rightarrow> events s = body @ [Ev_Fatal f]
      | Inr s \<Rightarrow> events s = body)"
proof (cases "loaded_config w path")
  case None
  then show ?thesis
    by (simp add: run_checks_not_loaded init_state_def run_event_def)
next
  case (Some conf)
  let ?s0 = "emit (Ev_Read_File path) init_state"
  have read: "run_event (Ev_Read_File path) \<and> \<not> is_push (Ev_Read_File path)"
    by (simp add: run_event_def)
  obtain evs1 where e1:
    "run_extends (loop_event new_client) ?s0 (check_loop w new_client conf 0 (Servers conf) ?s0) evs1"
    using check_loop_extends by blast
  then have l1: "list_all run_event evs1 \<and> filter is_push evs1 = []"
    by (simp add: run_extends_def list_all_loop_events)
  show ?thesis
  proof (cases "check_loop w new_client conf 0 (Servers conf) ?s0")
    case (Inl r)
    with e1 l1 read Some show ?thesis
      by (auto simp: run_checks_loaded run_extends_def init_state_def intro!: exI [of _ "Ev_Read_File path # evs1"])
  next
    case (Inr s1)
    obtain evs2 where e2: "run_extends is_push s1 (notify w conf s1) evs2" and n2: "length evs2 \<le> 1"
      using notify_extends by blast
    from e2 have l2: "list_all run_event evs2 \<and> filter is_push evs2 = evs2"
      by (auto simp: run_extends_def list_all_iff push_run_event)
    from e1 Inr have ev1: "events s1 = [Ev_Read_File path] @ evs1"
      by (simp add: run_extends_def init_state_def)
    show ?thesis
      using e2 l1 l2 n2 read ev1 Inr Some
      by (auto simp: run_checks_loaded run_extends_def split: sum.splits
          intro!: exI [of _ "Ev_Read_File path # evs1 @ evs2"])
  qed
qed

lemma main_go_trace:
  assumes "main_go w args = (code, evs)"
  shows "\<exists>body. list_all run_event body \<and> length (filter is_push body) \<le> 1 \<and>
           (code = 1 \<and> (\<exists>f. evs = body @ [Ev_Fatal f]) \<or> code \<noteq> 1 \<and> evs = body)"
proof (cases "conf_file args")
  case (Inl x)
  with assms show ?thesis
    by (cases x) (auto simp: main_go_def intro!: exI [of _ "[]"])
next
  case (Inr path)
  obtain body where b: "list_all run_event body" "length (filter is_push body) \<le> 1"
    and shape: "case run_checks w path of Inl (f, s) \<Rightarrow> events s = body @ [Ev_Fatal f]
                  | Inr s \<Rightarrow> events s = body"
    using run_checks_trace by blast
  from assms Inr have "exit_of (run_checks w path) = (code, evs)"
    by (simp add: main_go_path)
  with b shape show ?thesis
    by (auto simp: exit_of_def split: sum.splits)
qed

lemma run_checks_safe:
  assumes "loaded_config w path = Some conf" and "loop_safe w conf 0 (Servers conf)"
  shows "run_checks w path =
           notify w conf \<lparr>msg = spec_failures w conf 0 (Servers conf),
                          events = Ev_Read_File path # spec_events w new_client conf 0 (Servers conf)\<rparr>"
proof -
  obtain s' where run: "check_loop w new_client conf 0 (Servers conf)
                          (emit (Ev_Read_File path) init_state) = Inr s'"
    using check_loop_safe_Inr [OF assms(2)] by blast
  show ?thesis
    using check_loop_Inr_spec [OF run] run
    by (simp add: run_checks_loaded [OF assms(1)] init_state_def emit_def)
qed

lemma run_checks_no_servers:
  assumes "loaded_config w path = Some conf" and "Servers conf = []"
  shows "run_checks w path = Inr (emit (Ev_Read_File path) init_state)"
  using assms by (simp add: run_checks_loaded notify_cases init_state_def)

end
