(* ===== verification/Spec2Isabelle.thy ===== *)
theory Spec2Isabelle
  imports Uptime
begin

text \<open>
  \<^bold>\<open>A verified model of the uptime checker \<^verbatim>\<open>src/main.go\<close>.\<close>

  \<^emph>\<open>The program.\<close>  One Go file: \<open>main\<close> (lines 36--83) and \<open>sendPushover\<close>
  (lines 85--97).  \<open>main\<close> parses the command line (one flag, \<open>-config\<close>, default
  \<open>conf.yaml\<close>), reads and decodes the YAML configuration into the global \<open>conf\<close>
  (a list of servers with URL and label, a user agent, Pushover credentials), builds one
  HTTP client that skips TLS verification, checks every server in order with one GET,
  collecting failure entries in \<open>msg\<close>, and if \<open>msg\<close> is not empty sends one Pushover
  message with the entries joined by \<open>"<br>"\<close>.  Every unexpected error
  (\<open>log.Fatalln\<close>) ends the process with status 1.  There is no concurrency and no
  state across runs; the only shared state is \<open>conf\<close>, written once, and the
  append-only \<open>msg\<close>.

  \<^emph>\<open>How it is modelled.\<close>  A run is a function of the command line and of a
  \<open>world\<close> (theory \<open>Effects\<close>) that answers every call into code outside the
  repository: \<open>os.ReadFile\<close>, the YAML text parser, URL parsing in
  \<open>http.NewRequest\<close>, \<open>client.Do\<close> (per check: an error, or a status line and whether
  the body reads to its end) and Pushover delivery.  The result of a run is its exit
  status and the list of observable \<open>event\<close>s it caused, in order (file read, request
  sent through a client, body drained, body closed, Pushover call, fatal error).  Each
  step threads a \<open>run_state\<close> (the failure list \<open>msg\<close> and the events so far) and
  returns \<open>(fatal \<times> run_state) + 'a\<close>: \<open>Inl\<close> is a \<open>log.Fatalln\<close> exit, and
  \<open>go_bind\<close> ends the run there.  Strings are byte lists, as Go's are.
  \<^item> \<open>Prelude\<close>: type names, the \<open>uptime_simps\<close> collection, byte-level helpers
    (\<open>strings.ToLower\<close> on ASCII, \<open>utf8.RuneCountInString\<close>) and list lemmas.
  \<^item> \<open>Go_Strings\<close>: \<open>strings.Join\<close> (called on line 78) as the standard library
    writes it, with the reference join \<open>join_ref\<close> and its rune count.
  \<^item> \<open>Flags\<close>: \<open>parse_flags\<close> and \<open>conf_file\<close>, lines 37--38 under the rules of
    Go's \<open>flag\<close> package for this one-flag set.
  \<^item> \<open>Config\<close>: the records \<open>servers\<close>, \<open>pushoverCredential\<close>, \<open>Config\<close>
    (lines 17--31) and \<open>decode_config\<close>, what \<open>yaml.Unmarshal\<close> (line 44) does with a
    parsed tree: field keys from the tags or the lower-cased field names, unknown keys
    ignored, zero values for absent keys and nulls, \<open>null\<close> items of the server list
    dropped, errors for type mismatches and for any key repeated in a mapping.
  \<^item> \<open>Effects\<close>: the world, the events, \<open>fatal\<close> (the five \<open>log.Fatalln\<close> sites),
    \<open>fatal_exit\<close>, \<open>go_bind\<close>, and \<open>run_extends\<close>, the shape of a step's events.
  \<^item> \<open>Checker\<close>: \<open>check_server\<close> (one iteration, lines 57--75) and \<open>check_loop\<close>
    (the \<open>range\<close> loop, lines 55--76), with the abstract per-target contract
    \<open>target_failures\<close>/\<open>target_events\<close>, its lifting \<open>spec_failures\<close>/\<open>spec_events\<close>,
    \<open>loop_safe\<close> (no target hits a fatal path) and \<open>target_fatal\<close> (what a fatal
    target contributes before the exit).
  \<^item> \<open>Notifier\<close>: \<open>notify\<close> (lines 77--82), \<open>send_pushover\<close> and \<open>push_call_of\<close>
    (lines 85--97), and \<open>pushover_validate\<close>, the limits the Pushover client enforces
    before calling the API (tokens of 30 alphanumerics, message of 1 to 1024 runes,
    title of at most 250 runes, priority from -2 to 2).
  \<^item> \<open>Uptime\<close>: \<open>load_config\<close> (lines 40--47), \<open>new_client\<close> (lines 49--53),
    \<open>run_checks\<close> and \<open>main_go\<close> (lines 36--83), \<open>exit_of\<close> (status 1 after a fatal
    error, 0 otherwise, 2 or 0 for flag errors and help), and the trace lemma
    \<open>main_go_trace\<close>: every run is a body of non-fatal events, with at most one
    Pushover call and only GET requests through that client, possibly followed by one
    fatal error.
  \<^item> This theory: the contract of a whole run (\<open>spec_notification\<close>,
    \<open>spec_run_events\<close>, \<open>push_ok\<close>) and the properties that span the components.

  \<^emph>\<open>What is proved.\<close>  The run refines its contract (C1): with a loadable
  configuration, no fatal target and a deliverable notification, the run exits 0 with
  exactly the contract's events; conversely an exit 0 implies all of these (C11), so
  status 0 never hides a failure.  The loop completes exactly when no target is fatal
  and then records the contract's entries and events (C2); it stops exactly at the
  first fatal target, with the entries and events before it and the error last (C6).
  Each branch of an iteration is stated (C3--C5); requests go out in list order with
  the configured user agent (C7) and through the TLS-skipping client (C17).  The
  notifier sends one call with the joined entries (C8) and refuses messages over 1024
  runes (C9); a run makes at most one Pushover call (C10).  Configuration errors end
  the run with status 1 (C12).  The decoder reads the keys the tags of lines 17--31
  give (C18) and ignores unknown keys unless a key is repeated (C19); the flag parser
  reads \<open>-config\<close> in every form and stops at the first positional argument (C20,
  C21).  Consequences for the operator: with no servers nothing happens (C13); a file
  written with the spec's capitalised keys checks nothing and exits 0 (C14); 55 or
  more failure entries make the notification impossible (C15); an unreadable body
  ends the run and loses the failures recorded so far (C16).

  \<^emph>\<open>Bounds and termination.\<close>  Every loop of the program is structural recursion
  over a finite list (the servers, the arguments, the join's elements), so every
  function of the model is total and no fuel is needed.  Totality is a property of the
  model, not of the program: the world answers every \<open>client.Do\<close> and every body
  read, while \<open>new(http.Client)\<close> has no timeout, so a server that accepts the
  connection and never answers blocks the real run forever (a finding; no theorem
  claims termination).  Lengths are modelled as \<open>nat\<close>: Go's \<open>int\<close> arithmetic
  occurs only in \<open>strings.Join\<close>'s size computation, which overflows only for strings
  of \<open>2^63\<close> bytes.  The bound 55 of C15 follows from the 15 runes of
  \<open>" is seems down."\<close> and the 1024-rune limit: \<open>19 * 55 - 4 > 1024\<close>.

  \<^emph>\<open>Not modelled.\<close>  The network, TLS and DNS (answers of the world, not their
  mechanism), waiting and time-outs, HTTP redirects inside \<open>client.Do\<close>, the YAML
  scanner and parser (anchors, merge keys, tags, scalar styles), Pushover delivery,
  the text that \<open>log.Fatalln\<close> prints, and \<open>resp.Body.Close\<close>'s error, which the code
  ignores.  Labels and tokens are counted in runes by their UTF-8 lead bytes, exact for
  valid UTF-8.

  \<^emph>\<open>Further work.\<close>  Give the world a non-answering server, so that the missing
  time-out becomes a theorem; add the YAML scalar resolution of non-string scalars and
  the \<open>Set\<close> of Go's flag values; extend the Pushover limits with the library's URL
  and device-name checks.
\<close>

section \<open>The contract of a run\<close>

text \<open>What the spec promises of a run in which the configuration loads and nothing
  fatal happens: the file is read, each target is checked in order with its events,
  and one notification carries every failure entry, joined by \<open>"<br>"\<close>, if there is
  any.\<close>

definition spec_notification :: "world \<Rightarrow> Config \<Rightarrow> push_call option" where
  "spec_notification w conf =
     (let fails = spec_failures w conf 0 (Servers conf)
      in if fails = [] then None else Some (push_call_of conf (join_ref ''<br>'' fails) 0))"

definition spec_run_events :: "world \<Rightarrow> go_string \<Rightarrow> Config \<Rightarrow> event list" where
  "spec_run_events w path conf =
     Ev_Read_File path # spec_events w new_client conf 0 (Servers conf)
     @ (case spec_notification w conf of None \<Rightarrow> [] | Some c \<Rightarrow> [Ev_Push c])"

text \<open>The notification, if there is one, passes the Pushover limits and is
  delivered.\<close>

definition push_ok :: "world \<Rightarrow> push_call option \<Rightarrow> bool" where
  "push_ok w n = (case n of None \<Rightarrow> True | Some c \<Rightarrow> pushover_validate c \<and> push_delivered w c)"

section \<open>Example inputs\<close>

text \<open>A configuration with two targets, the YAML tree of its file, and a world in
  which the first target answers \<open>"200 OK"\<close> and the second cannot be reached.\<close>

definition demo_config :: Config where
  "demo_config =
     \<lparr>Servers = [\<lparr>URL = ''https://a.example'', Label = ''a''\<rparr>,
                 \<lparr>URL = ''https://b.example'', Label = ''b''\<rparr>],
      UserAgent = ''uptime'',
      Credential = \<lparr>Token = ''azGDORePK8gMaC0QOYAMyEEuzJnyUi'',
                    RecipientToken = ''uQiRzpo4DXghDmr9QzzfQu27cmVRsG''\<rparr>\<rparr>"

definition demo_doc :: ynode where
  "demo_doc =
     YMap [(''servers'',
            YSeq [YMap [(''url'', YScalar ''https://a.example''), (''label'', YScalar ''a'')],
                  YMap [(''url'', YScalar ''https://b.example''), (''label'', YScalar ''b'')]]),
           (''ua'', YScalar ''uptime''),
           (''pushover'', YMap [(''app_token'', YScalar ''azGDORePK8gMaC0QOYAMyEEuzJnyUi''),
                                (''recipient_token'', YScalar ''uQiRzpo4DXghDmr9QzzfQu27cmVRsG'')])]"

definition demo_world :: world where
  "demo_world =
     \<lparr>read_file = (\<lambda>p. if p = ''conf.yaml'' then Some ''servers: ...'' else None),
      yaml_parse = (\<lambda>_. Some demo_doc),
      url_parses = (\<lambda>_. True),
      http_do = (\<lambda>i r. if req_url r = ''https://a.example'' then Response ''200 OK'' True
                       else Do_Error),
      push_delivered = (\<lambda>_. True)\<rparr>"

text \<open>A world whose configuration file parses to \<open>doc\<close> and in which every request
  gets the answer \<open>a\<close>.\<close>

definition flat_world :: "ynode \<Rightarrow> http_result \<Rightarrow> world" where
  "flat_world doc a =
     \<lparr>read_file = (\<lambda>_. Some ''...''), yaml_parse = (\<lambda>_. Some doc), url_parses = (\<lambda>_. True),
      http_do = (\<lambda>_ _. a), push_delivered = (\<lambda>_. True)\<rparr>"

definition server_node :: ynode where
  "server_node = YMap [(''url'', YScalar ''https://x.example''), (''label'', YScalar ''x'')]"

definition server_x :: servers where
  "server_x = \<lparr>URL = ''https://x.example'', Label = ''x''\<rparr>"

definition config_x :: "nat \<Rightarrow> Config" where
  "config_x n = \<lparr>Servers = replicate n server_x, UserAgent = '''', Credential = zero_credential\<rparr>"

section \<open>Properties of a run\<close>

lemma notify_spec_Inr:
  assumes "notify w conf \<lparr>msg = spec_failures w conf 0 (Servers conf), events = evs0\<rparr> = Inr s"
  shows "push_ok w (spec_notification w conf) \<and>
         events s = evs0 @ (case spec_notification w conf of None \<Rightarrow> [] | Some c \<Rightarrow> [Ev_Push c])"
  using assms
  by (auto simp: notify_cases spec_notification_def push_ok_def Let_def emit_def fatal_exit_def
      split: if_splits)

lemma decode_server_list_x:
  "decode_server_list (replicate n server_node) = Some (replicate n server_x)"
  by (induction n) (simp_all add: decode_server_def server_node_def server_x_def unique_keys_def
      yaml_field_def)

lemma loaded_config_x:
  "loaded_config (flat_world (YMap [(''servers'', YSeq (replicate n server_node))]) a) p =
     Some (config_x n)"
  by (simp add: loaded_config_def flat_world_def decode_config_def unique_keys_def yaml_field_def
      decode_servers_def decode_server_list_x config_x_def)

text \<open>C1: A run whose configuration loads, whose targets hit no fatal path and whose
  notification (if any) is delivered exits with status 0 after exactly the events of
  the contract: the file read, each target's request (and drain and close) in list
  order, and one Pushover call with all failure entries joined by \<open>"<br>"\<close> when
  there is at least one.\<close>

theorem main_refines_spec:
  assumes "conf_file args = Inr path" and "loaded_config w path = Some conf"
    and "loop_safe w conf 0 (Servers conf)" and "push_ok w (spec_notification w conf)"
  shows "main_go w args = (0, spec_run_events w path conf)"
proof -
  have run: "main_go w args = exit_of (notify w conf
               \<lparr>msg = spec_failures w conf 0 (Servers conf),
                events = Ev_Read_File path # spec_events w new_client conf 0 (Servers conf)\<rparr>)"
    using assms(1-3) by (simp add: main_go_path run_checks_safe)
  show ?thesis
    using assms(4) unfolding run
    by (simp add: notify_cases spec_run_events_def spec_notification_def push_ok_def Let_def
        emit_def split: if_splits)
qed

theorem main_refines_spec_witness:
  "main_go demo_world [] = (0, spec_run_events demo_world ''conf.yaml'' demo_config)"
proof -
  have h1: "conf_file [] = Inr ''conf.yaml''"
    by (simp add: conf_file_def)
  have h2: "loaded_config demo_world ''conf.yaml'' = Some demo_config"
    by (simp add: loaded_config_def demo_world_def demo_doc_def demo_config_def decode_config_def
        unique_keys_def yaml_field_def decode_servers_def decode_server_def decode_credential_def)
  have h3: "loop_safe demo_world demo_config 0 (Servers demo_config)"
    by (simp add: demo_world_def demo_config_def answer_def check_request_def)
  have h4: "push_ok demo_world (spec_notification demo_world demo_config)"
    by (simp add: push_ok_def spec_notification_def demo_world_def demo_config_def answer_def
        check_request_def pushover_validate_def valid_push_token_def down_msg_def) code_simp
  show ?thesis by (rule main_refines_spec [OF h1 h2 h3 h4])
qed

text \<open>C10: Whatever the world and the arguments, a run makes at most one call to the
  Pushover API.\<close>

theorem main_at_most_one_push: "length (filter is_push (snd (main_go w args))) \<le> 1"
proof -
  obtain code evs where run: "main_go w args = (code, evs)"
    by (cases "main_go w args")
  from main_go_trace [OF run] show ?thesis
    unfolding run by auto
qed

text \<open>C11: A run with a configuration file that exits with status 0 did all the
  spec asks: the configuration loaded, no target hit a fatal path, the notification
  (if there were failures) passed the Pushover limits and was delivered, and the
  events are exactly the contract's.  Exit status 0 is never a silent failure.\<close>

theorem main_exit_zero_reported:
  assumes "conf_file args = Inr path" and "main_go w args = (0, evs)"
  shows "\<exists>conf. loaded_config w path = Some conf \<and> loop_safe w conf 0 (Servers conf) \<and>
           push_ok w (spec_notification w conf) \<and> evs = spec_run_events w path conf"
proof -
  obtain s where run: "run_checks w path = Inr s" and evs: "evs = events s"
    using assms by (auto simp: main_go_path exit_of_def split: sum.splits)
  obtain conf where conf: "loaded_config w path = Some conf"
    using run by (cases "loaded_config w path") (simp_all add: run_checks_not_loaded)
  from run obtain s1 where "check_loop w new_client conf 0 (Servers conf)
                              (emit (Ev_Read_File path) init_state) = Inr s1"
    by (auto simp: run_checks_loaded [OF conf] go_bind_Inr_iff)
  then have safe: "loop_safe w conf 0 (Servers conf)"
    by (rule check_loop_Inr_safe)
  from run have "notify w conf \<lparr>msg = spec_failures w conf 0 (Servers conf),
                   events = Ev_Read_File path # spec_events w new_client conf 0 (Servers conf)\<rparr> = Inr s"
    by (simp add: run_checks_safe [OF conf safe])
  from notify_spec_Inr [OF this] conf safe evs show ?thesis
    by (auto simp: spec_run_events_def)
qed

theorem main_exit_zero_reported_witness:
  "conf_file [] = Inr ''conf.yaml'' \<and>
   main_go (flat_world YNull Do_Error) [] = (0, [Ev_Read_File ''conf.yaml'']) \<and>
   (\<exists>conf. loaded_config (flat_world YNull Do_Error) ''conf.yaml'' = Some conf \<and>
      loop_safe (flat_world YNull Do_Error) conf 0 (Servers conf) \<and>
      push_ok (flat_world YNull Do_Error) (spec_notification (flat_world YNull Do_Error) conf) \<and>
      [Ev_Read_File ''conf.yaml''] = spec_run_events (flat_world YNull Do_Error) ''conf.yaml'' conf)"
proof -
  have h1: "conf_file [] = Inr ''conf.yaml''"
    by (simp add: conf_file_def)
  have h2: "main_go (flat_world YNull Do_Error) [] = (0, [Ev_Read_File ''conf.yaml''])"
    by (simp add: main_go_def conf_file_def flat_world_def run_checks_def
        load_config_def decode_config_def zero_config_def init_state_def notify_def)
  show ?thesis using h1 h2 main_exit_zero_reported [OF h1 h2] by blast
qed
text \<open>C12: When the configuration cannot be read or parsed, the run logs the error and
  exits with status 1 after reading the file: no target is checked and nothing is
  sent.\<close>

theorem main_config_error:
  assumes "conf_file args = Inr path" and "loaded_config w path = None"
  shows "main_go w args =
           (1, [Ev_Read_File path,
                Ev_Fatal (if read_file w path = None then Read_Config_Failed else Parse_Config_Failed)])"
  using assms by (simp add: main_go_path run_checks_not_loaded init_state_def)

theorem main_config_error_witness:
  "main_go (flat_world (YScalar ''oops'') Do_Error) [] =
     (1, [Ev_Read_File ''conf.yaml'', Ev_Fatal Parse_Config_Failed])"
proof -
  have h1: "conf_file [] = Inr ''conf.yaml''" by (simp add: conf_file_def)
  have h2: "loaded_config (flat_world (YScalar ''oops'') Do_Error) ''conf.yaml'' = None"
    by (simp add: loaded_config_def flat_world_def decode_config_def)
  show ?thesis using main_config_error [OF h1 h2] by (simp add: flat_world_def)
qed

text \<open>C13: With an empty server list, the run reads the configuration, checks
  nothing, sends no notification and exits with status 0.\<close>

theorem main_no_servers:
  assumes "conf_file args = Inr path" and "loaded_config w path = Some conf"
    and "Servers conf = []"
  shows "main_go w args = (0, [Ev_Read_File path])"
  using assms by (simp add: main_go_path run_checks_no_servers init_state_def)

theorem main_no_servers_witness:
  "main_go (flat_world (YMap [(''servers'', YSeq (replicate 0 server_node))]) Do_Error) [] =
     (0, [Ev_Read_File ''conf.yaml''])"
proof -
  have h1: "conf_file [] = Inr ''conf.yaml''" by (simp add: conf_file_def)
  have h3: "Servers (config_x 0) = []" by (simp add: config_x_def)
  show ?thesis using main_no_servers [OF h1 loaded_config_x h3] .
qed

text \<open>C14: A configuration file written with the keys of the spec's schema
  (\<open>Servers\<close>, \<open>URL\<close>, \<open>Label\<close>) has no key \<open>servers\<close>, which is the key yaml.v3
  reads for the untagged field \<open>Servers\<close>; such a file loads without error, no target
  is checked, nothing is sent and the run exits with status 0.\<close>

theorem main_spec_schema_no_checks:
  assumes "conf_file args = Inr path" and "read_file w path = Some f"
    and "yaml_parse w f = Some (YMap kvs)" and "map_of kvs ''servers'' = None"
    and "decode_config (YMap kvs) \<noteq> None"
  shows "main_go w args = (0, [Ev_Read_File path])"
proof -
  obtain conf where dec: "decode_config (YMap kvs) = Some conf"
    using assms(5) by blast
  have "Servers conf = []"
    using assms(4) dec by (rule decode_config_servers_absent)
  moreover have "loaded_config w path = Some conf"
    using assms(2,3) dec by (simp add: loaded_config_def)
  ultimately show ?thesis
    using assms(1) by (simp add: main_go_path run_checks_no_servers init_state_def)
qed

theorem main_spec_schema_no_checks_witness:
  "main_go (flat_world (YMap [(''Servers'', YSeq [YMap [(''URL'', YScalar ''https://a.example''),
                                                       (''Label'', YScalar ''a'')]]),
                              (''ua'', YScalar ''uptime'')]) Do_Error) [] =
     (0, [Ev_Read_File ''conf.yaml''])"
proof -
  let ?kvs = "[(''Servers'', YSeq [YMap [(''URL'', YScalar ''https://a.example''),
                                       (''Label'', YScalar ''a'')]]),
              (''ua'', YScalar ''uptime'')]"
  have h1: "conf_file [] = Inr ''conf.yaml''" by (simp add: conf_file_def)
  have h2: "read_file (flat_world (YMap ?kvs) Do_Error) ''conf.yaml'' = Some ''...''"
    by (simp add: flat_world_def)
  have h3: "yaml_parse (flat_world (YMap ?kvs) Do_Error) ''...'' = Some (YMap ?kvs)"
    by (simp add: flat_world_def)
  have h4: "map_of ?kvs ''servers'' = None"
    by code_simp
  have h5: "decode_config (YMap ?kvs) \<noteq> None"
    by code_simp
  show ?thesis by (rule main_spec_schema_no_checks [OF h1 h2 h3 h4 h5])
qed

text \<open>C15: Every failure entry has at least 15 runes, so a run in which 55 or more
  entries are recorded builds a message of more than 1024 runes: the Pushover limits
  refuse it, nothing is sent, and the run exits with status 1.  The more targets are
  down, the surer it is that nobody is told.\<close>

theorem main_many_failures_unreported:
  assumes "conf_file args = Inr path" and "loaded_config w path = Some conf"
    and "loop_safe w conf 0 (Servers conf)"
    and "55 \<le> length (spec_failures w conf 0 (Servers conf))"
  shows "main_go w args =
           (1, Ev_Read_File path # spec_events w new_client conf 0 (Servers conf)
               @ [Ev_Fatal Push_Failed])
         \<and> \<not> list_ex is_push (snd (main_go w args))"
proof -
  let ?fs = "spec_failures w conf 0 (Servers conf)"
  have "19 * length ?fs \<le> rune_count (join_ref ''<br>'' ?fs) + 4"
    by (rule join_ref_runes_lower) (rule spec_failures_runes)
  with assms(4) have long: "1024 < rune_count (join_ref ''<br>'' ?fs)"
    by linarith
  from assms(4) have "?fs \<noteq> []" by auto
  with long have "notify w conf \<lparr>msg = ?fs,
      events = Ev_Read_File path # spec_events w new_client conf 0 (Servers conf)\<rparr> =
      Inl (Push_Failed, \<lparr>msg = ?fs, events = Ev_Read_File path #
             spec_events w new_client conf 0 (Servers conf) @ [Ev_Fatal Push_Failed]\<rparr>)"
    by (simp add: notify_cases pushover_validate_def Let_def fatal_exit_def emit_def)
  then show ?thesis
    using assms(1-3) by (simp add: main_go_path run_checks_safe)
qed

theorem main_many_failures_unreported_witness:
  "fst (main_go (flat_world (YMap [(''servers'', YSeq (replicate 55 server_node))]) Do_Error) []) = 1 \<and>
   \<not> list_ex is_push
      (snd (main_go (flat_world (YMap [(''servers'', YSeq (replicate 55 server_node))]) Do_Error) []))"
proof -
  let ?w = "flat_world (YMap [(''servers'', YSeq (replicate 55 server_node))]) Do_Error"
  have h1: "conf_file [] = Inr ''conf.yaml''" by (simp add: conf_file_def)
  have safe: "loop_safe ?w c i (replicate n server_x)" for c i n
    by (induction n arbitrary: i) (simp_all add: flat_world_def answer_def)
  have fails: "length (spec_failures ?w c i (replicate n server_x)) = n" for c i n
    by (induction n arbitrary: i) (simp_all add: flat_world_def answer_def)
  have h3: "loop_safe ?w (config_x 55) 0 (Servers (config_x 55))"
    by (simp add: safe config_x_def)
  have h4: "55 \<le> length (spec_failures ?w (config_x 55) 0 (Servers (config_x 55)))"
    by (simp add: fails config_x_def)
  show ?thesis using main_many_failures_unreported [OF h1 loaded_config_x h3 h4] by simp
qed

text \<open>C16: A response whose body cannot be read ends the run with status 1 at once,
  whatever its status line: no later target is checked and nothing is sent, although
  the failure entries recorded so far (and this target's own, for a bad status) are
  lost.\<close>

theorem main_drain_failure_unreported:
  assumes "conf_file args = Inr path" and "loaded_config w path = Some conf"
    and "Servers conf = srv # rest" and "url_parses w (URL srv)"
    and "answer w conf 0 srv = Response st False"
  shows "main_go w args =
           (1, [Ev_Read_File path, Ev_Do 0 new_client (check_request conf srv), Ev_Drain 0,
                Ev_Fatal Drain_Failed])"
proof -
  have "check_server w new_client conf 0 srv (emit (Ev_Read_File path) init_state) =
          Inl (Drain_Failed,
               \<lparr>msg = (if st \<noteq> ''200 OK'' then [down_msg (Label srv), invalid_status] else []),
                events = [Ev_Read_File path, Ev_Do 0 new_client (check_request conf srv),
                          Ev_Drain 0, Ev_Fatal Drain_Failed]\<rparr>)"
    using assms(4,5)
    by (simp add: check_server_def new_request_def header_add_def check_request_def answer_def
        init_state_def emit_def fatal_exit_def Let_def)
  then show ?thesis
    using assms(1-3) by (simp add: main_go_path run_checks_loaded)
qed

theorem main_drain_failure_unreported_witness:
  "main_go (flat_world (YMap [(''servers'', YSeq (replicate 2 server_node))])
              (Response ''500 Internal Server Error'' False)) [] =
     (1, [Ev_Read_File ''conf.yaml'', Ev_Do 0 new_client (check_request (config_x 2) server_x),
          Ev_Drain 0, Ev_Fatal Drain_Failed])"
proof -
  let ?w = "flat_world (YMap [(''servers'', YSeq (replicate 2 server_node))])
              (Response ''500 Internal Server Error'' False)"
  have h1: "conf_file [] = Inr ''conf.yaml''" by (simp add: conf_file_def)
  have h3: "Servers (config_x 2) = server_x # [server_x]"
    by (simp add: config_x_def numeral_2_eq_2)
  have h4: "url_parses ?w (URL server_x)" by (simp add: flat_world_def)
  have h5: "answer ?w (config_x 2) 0 server_x = Response ''500 Internal Server Error'' False"
    by (simp add: flat_world_def answer_def)
  show ?thesis by (rule main_drain_failure_unreported [OF h1 loaded_config_x h3 h4 h5])
qed

text \<open>C17: Every request of every run is a GET sent through the client of lines
  49--53, which does not verify TLS certificates.\<close>

theorem main_requests_skip_tls:
  assumes "Ev_Do i cl r \<in> set (snd (main_go w args))"
  shows "insecure_skip_verify cl \<and> req_method r = ''GET''"
proof -
  obtain code evs where run: "main_go w args = (code, evs)"
    by (cases "main_go w args")
  obtain body where b: "list_all run_event body"
    and shape: "code = 1 \<and> (\<exists>f. evs = body @ [Ev_Fatal f]) \<or> code \<noteq> 1 \<and> evs = body"
    using main_go_trace [OF run] by blast
  from assms run shape have "Ev_Do i cl r \<in> set body" by auto
  with b have "run_event (Ev_Do i cl r)" by (simp add: list_all_iff)
  then show ?thesis by (simp add: run_event_def new_client_def)
qed

theorem main_requests_skip_tls_witness:
  "Ev_Do 0 new_client (check_request (config_x 1) server_x)
     \<in> set (snd (main_go (flat_world (YMap [(''servers'', YSeq (replicate 1 server_node))])
                             (Response ''200 OK'' True)) [])) \<and>
   insecure_skip_verify new_client \<and> req_method (check_request (config_x 1) server_x) = ''GET''"
proof -
  let ?w = "flat_world (YMap [(''servers'', YSeq (replicate 1 server_node))])
             (Response ''200 OK'' True)"
  have l: "loaded_config ?w ''conf.yaml'' = Some (config_x 1)"
    by (rule loaded_config_x)
  have run: "Ev_Do 0 new_client (check_request (config_x 1) server_x)
     \<in> set (snd (main_go ?w []))"
  proof -
    have h1: "conf_file [] = Inr ''conf.yaml''" by (simp add: conf_file_def)
    show ?thesis
      unfolding main_go_path [OF h1] run_checks_loaded [OF l]
      by (simp add: config_x_def check_server_def new_request_def header_add_def
          check_request_def flat_world_def init_state_def notify_def Let_def)
  qed
  show ?thesis using run main_requests_skip_tls [OF run] by simp
qed

end
